theory Spec2Isabelle
  imports Complex_Main
begin

section \<open>JavaScript values\<close>

text \<open>
  A JavaScript number is modelled as an exact rational, with \<open>NaN\<close> as the one
  non-numeric value (it also stands for what \<open>undefined\<close> is coerced to in a numeric
  comparison or by \<open>isNaN\<close>). Binary floating point rounding and the infinities are
  outside the model.
\<close>

datatype jsnum = NaN | Num rat

fun isNaN :: "jsnum \<Rightarrow> bool" where
  "isNaN NaN = True"
| "isNaN (Num x) = False"

text \<open>\<open>a < b\<close> on numbers: every comparison with \<open>NaN\<close> is false.\<close>

fun js_lt :: "jsnum \<Rightarrow> jsnum \<Rightarrow> bool" where
  "js_lt (Num a) (Num b) = (a < b)"
| "js_lt a b = False"

text \<open>\<open>!x\<close> on a number: zero and \<open>NaN\<close> are falsy.\<close>

fun js_falsy_num :: "jsnum \<Rightarrow> bool" where
  "js_falsy_num NaN = True"
| "js_falsy_num (Num x) = (x = 0)"

fun js_div :: "jsnum \<Rightarrow> rat \<Rightarrow> jsnum" where
  "js_div NaN d = NaN"
| "js_div (Num x) d = Num (x / d)"

text \<open>
  \<open>parseFloat(x.toFixed(2))\<close>: the nearest multiple of 1/100, a tie going to the larger
  magnitude.
\<close>

definition toFixed2 :: "rat \<Rightarrow> rat" where
  "toFixed2 x =
     (if x < 0 then - (of_int \<lfloor>(- x) * 100 + 1 / 2\<rfloor> / 100)
      else of_int \<lfloor>x * 100 + 1 / 2\<rfloor> / 100)"

fun js_toFixed2 :: "jsnum \<Rightarrow> jsnum" where
  "js_toFixed2 NaN = NaN"
| "js_toFixed2 (Num x) = Num (toFixed2 x)"

text \<open>Errors thrown by the code: \<open>new Error(message)\<close>, the runtime's \<open>TypeError\<close> and
  \<open>SyntaxError\<close>, and the error axios rejects with (\<open>error.response?.status\<close> when the
  gateway answered).\<close>

datatype error = Error string | TypeError | SyntaxError | AxiosFailure "nat option"

text \<open>Decimal text of a number, as a template literal prints \<open>Date.now()\<close> or a
  numeric id.\<close>

definition digit_char :: "nat \<Rightarrow> char" where
  "digit_char d = ''0123456789'' ! (d mod 10)"

fun show_nat :: "nat \<Rightarrow> string" where
  "show_nat n =
     (if n < 10 then [digit_char n] else show_nat (n div 10) @ [digit_char (n mod 10)])"

declare show_nat.simps [simp del]

text \<open>
  A Telegram id or chat id as the handlers receive it: a number (\<open>msg.from.id\<close>,
  \<open>msg.chat.id\<close>), a string (cut out of a reference, or a stored \<open>telegramId\<close>), or
  \<open>undefined\<close>.
\<close>

datatype tgid = IdNum nat | IdStr string | IdUndefined

fun tgid_falsy :: "tgid \<Rightarrow> bool" where
  "tgid_falsy (IdNum n) = (n = 0)"
| "tgid_falsy (IdStr s) = (s = [])"
| "tgid_falsy IdUndefined = True"

fun tgid_toString :: "tgid \<Rightarrow> string" where
  "tgid_toString (IdNum n) = show_nat n"
| "tgid_toString (IdStr s) = s"
| "tgid_toString IdUndefined = ''undefined''"

section \<open>The record store (services/database.js)\<close>

record user_doc =
  user_id :: string
  user_telegramId :: string

record wallet_doc =
  wallet_id :: string
  wallet_userId :: string
  wallet_balance :: rat

text \<open>
  A transaction document. \<open>txn_details\<close> holds the string-valued entries of the details
  object that \<open>createTransaction\<close> stores as JSON text (\<open>JSON.parse\<close> of that text gives
  the entries back).
\<close>

record transaction_doc =
  txn_id :: string
  txn_userId :: string
  txn_type :: string
  txn_amount :: rat
  txn_reference :: string
  txn_details :: "(string \<times> string) list"
  txn_status :: string
  txn_createdAt :: nat

text \<open>Messages the bot sends; each constructor stands for one message template of
  index.js.\<close>

datatype message =
    WalletFunded jsnum
  | PaymentFailed
  | PaymentTimedOut
  | InsufficientBalanceFund
  | InsufficientBalance
  | AirtimeSent string string
  | AirtimeFailed string
  | DataSent string string string
  | DataFailed string
  | ElectricityPaid string
  | ElectricityFailed string
  | TvCompleted string
  | TvFailed string
  | PurchaseCancelled string
  | SendYesOrCancel
  | InvalidPhone
  | InvalidCard
  | NoDataPlans string
  | NoTvPlans string
  | ChooseDataPlan string
  | ChooseTvPlan string
  | SomethingWentWrong

text \<open>Calls that leave the handler: the methods of the database service and of the two
  gateway services, the HTTP requests and back-off sleeps of the payment gateway
  service, \<open>clearInterval\<close> on the polling timer, and the bot's outgoing messages, in the
  order they are made.\<close>

datatype call =
    GetUserByTelegramId tgid
  | GetUserWallet string
  | UpdateWalletBalance string jsnum string
  | CreateTransaction string string jsnum string
  | UpdateTransaction string
  | GetUserTransactions string nat
  | FindTransactionByReference string
  | InitializePayment string jsnum string
  | VerifyPayment string
  | HttpPost nat
  | HttpGet
  | Sleep nat
  | ClearInterval
  | BuyAirtime string jsnum string
  | BuyData string string string
  | PayElectricityBill string string string jsnum string
  | PayTvSubscription string string string
  | GetVariations string
  | SendMessage tgid message

text \<open>Stages of a chat session that the message handler branches on.\<close>

datatype stage =
    awaiting_airtime_network
  | awaiting_airtime_amount
  | awaiting_airtime_phone
  | confirm_airtime
  | awaiting_data_network
  | awaiting_data_phone
  | awaiting_data_variation
  | confirm_data
  | awaiting_electricity_provider
  | awaiting_meter_number
  | awaiting_meter_amount
  | confirm_electricity
  | awaiting_tv_provider
  | awaiting_card_number
  | awaiting_tv_variation
  | confirm_tv

record network =
  net_name :: string
  airtime_code :: string
  data_code :: string

record provider =
  prov_code :: string
  prov_name :: string

record variation =
  variation_code :: string
  var_name :: string
  variation_amount :: string

text \<open>A session object. A field the flow has not set yet is \<open>None\<close> (\<open>NaN\<close> for the
  two amounts).\<close>

record session =
  s_stage :: "stage option"
  s_lastActivity :: nat
  s_airtimeNetwork :: "network option"
  s_airtimeAmount :: jsnum
  s_phone :: "string option"
  s_dataNetwork :: "network option"
  s_dataPhone :: "string option"
  s_variations :: "variation list"
  s_variation :: "variation option"
  s_electricityProvider :: "provider option"
  s_meter :: "string option"
  s_amount :: jsnum
  s_tvProvider :: "provider option"
  s_card :: "string option"

text \<open>
  Everything the handlers read and write: the three collections in document order, the
  process-local session map (chat id to session), the counter \<open>ID.unique()\<close> draws from,
  and the calls made so far.
\<close>

record world =
  users :: "user_doc list"
  wallets :: "wallet_doc list"
  transactions :: "transaction_doc list"
  userSessions :: "(nat \<times> session) list"
  next_id :: nat
  trace :: "call list"

text \<open>An asynchronous method: it runs on the world and either throws or returns.\<close>

type_synonym 'a io = "world \<Rightarrow> (error + 'a) \<times> world"

definition io_return :: "'a \<Rightarrow> 'a io" where
  "io_return a w = (Inr a, w)"

definition io_throw :: "error \<Rightarrow> 'a io" where
  "io_throw e w = (Inl e, w)"

definition io_bind :: "'a io \<Rightarrow> ('a \<Rightarrow> 'b io) \<Rightarrow> 'b io" where
  "io_bind m f w = (case m w of (Inl e, w') \<Rightarrow> (Inl e, w') | (Inr a, w') \<Rightarrow> f a w')"

definition log_call :: "call \<Rightarrow> unit io" where
  "log_call c w = (Inr (), w\<lparr>trace := trace w @ [c]\<rparr>)"

text \<open>\<open>listDocuments(...).documents[0] || null\<close>.\<close>

definition first_doc :: "('a \<Rightarrow> bool) \<Rightarrow> 'a list \<Rightarrow> 'a option" where
  "first_doc P xs = (case filter P xs of [] \<Rightarrow> None | x # _ \<Rightarrow> Some x)"

definition getUserByTelegramId :: "tgid \<Rightarrow> user_doc option io" where
  "getUserByTelegramId telegramId =
     io_bind (log_call (GetUserByTelegramId telegramId)) (\<lambda>_.
       if tgid_falsy telegramId then io_throw (Error ''telegramId is required'')
       else (\<lambda>w. (Inr (first_doc (\<lambda>u. user_telegramId u = tgid_toString telegramId)
                          (users w)), w)))"

definition getUserWallet :: "string \<Rightarrow> wallet_doc option io" where
  "getUserWallet userId =
     io_bind (log_call (GetUserWallet userId)) (\<lambda>_.
       if userId = [] then io_throw (Error ''userId is required'')
       else (\<lambda>w. (Inr (first_doc (\<lambda>wl. wallet_userId wl = userId) (wallets w)), w)))"

text \<open>\<open>databases.updateDocument\<close> on the wallets collection: the document with this
  \<open>$id\<close> gets the new balance.\<close>

definition update_wallet_document :: "string \<Rightarrow> rat \<Rightarrow> wallet_doc io" where
  "update_wallet_document wid b w =
     (case first_doc (\<lambda>wl. wallet_id wl = wid) (wallets w) of
        None \<Rightarrow> (Inl (Error ''Document not found''), w)
      | Some wl \<Rightarrow>
          (Inr (wl\<lparr>wallet_balance := b\<rparr>),
           w\<lparr>wallets :=
               map (\<lambda>x. if wallet_id x = wid then x\<lparr>wallet_balance := b\<rparr> else x)
                 (wallets w)\<rparr>))"

text \<open>
  \<open>updateWalletBalance(userId, amount, type)\<close>. An empty user id, a \<open>NaN\<close> amount or a
  negative amount is refused; the wallet is read; the new balance is the sum for the
  type \<open>credit\<close> and the difference for every other type; a negative new balance is
  refused; otherwise the rounded balance is written.
\<close>

definition updateWalletBalance :: "string \<Rightarrow> jsnum \<Rightarrow> string \<Rightarrow> wallet_doc io" where
  "updateWalletBalance userId amount type =
     io_bind (log_call (UpdateWalletBalance userId amount type)) (\<lambda>_.
       if userId = [] \<or> isNaN amount \<or> js_lt amount (Num 0)
       then io_throw (Error ''Invalid userId or amount'')
       else io_bind (getUserWallet userId) (\<lambda>wallet.
         case wallet of
           None \<Rightarrow> io_throw (Error ''Wallet not found'')
         | Some wl \<Rightarrow>
             (case amount of
                NaN \<Rightarrow> io_throw (Error ''Invalid userId or amount'')
              | Num amt \<Rightarrow>
                  let currentBalance = wallet_balance wl;
                      newBalance = (if type = ''credit'' then currentBalance + amt
                                    else currentBalance - amt)
                  in if newBalance < 0 then io_throw (Error ''Insufficient balance'')
                     else update_wallet_document (wallet_id wl) (toFixed2 newBalance))))"

text \<open>A sequence of \<open>updateWalletBalance\<close> calls, each awaited before the next; a call
  that throws leaves the store as it found it and the caller goes on.\<close>

fun run_updates :: "world \<Rightarrow> (string \<times> jsnum \<times> string) list \<Rightarrow> world" where
  "run_updates w [] = w"
| "run_updates w ((userId, amount, type) # cs) =
     run_updates (snd (updateWalletBalance userId amount type w)) cs"

definition balances_nonneg :: "world \<Rightarrow> bool" where
  "balances_nonneg w = list_all (\<lambda>wl. 0 \<le> wallet_balance wl) (wallets w)"

text \<open>
  \<open>createTransaction(userId, type, amount, details, status)\<close>: the three required
  arguments must be truthy and \<open>details.reference\<close> must be a non-empty string; the new
  document gets a fresh id and is stored after the existing ones.
\<close>

definition fresh_id :: "world \<Rightarrow> string" where
  "fresh_id w = ''doc'' @ show_nat (next_id w)"

definition createTransaction ::
    "string \<Rightarrow> string \<Rightarrow> jsnum \<Rightarrow> (string \<times> string) list \<Rightarrow> string \<Rightarrow> nat \<Rightarrow>
     transaction_doc io" where
  "createTransaction userId type amount details status now =
     io_bind (log_call (CreateTransaction userId type amount status)) (\<lambda>_.
       if userId = [] \<or> js_falsy_num amount \<or> type = []
       then io_throw (Error ''Invalid transaction data: Missing userId, amount, or type'')
       else (case (map_of details ''reference'', amount) of
               (Some reference, Num amt) \<Rightarrow>
                 if reference = []
                 then io_throw
                        (Error ''Transaction 'reference' is required inside details object'')
                 else (\<lambda>w.
                   let doc = \<lparr>txn_id = fresh_id w, txn_userId = userId, txn_type = type,
                              txn_amount = toFixed2 amt, txn_reference = reference,
                              txn_details = details, txn_status = status,
                              txn_createdAt = now\<rparr>
                   in (Inr doc, w\<lparr>transactions := transactions w @ [doc],
                                  next_id := Suc (next_id w)\<rparr>))
             | _ \<Rightarrow> io_throw
                      (Error ''Transaction 'reference' is required inside details object'')))"

text \<open>\<open>updateTransaction(transactionId, { status })\<close>: the only update the code makes is
  of the status.\<close>

definition updateTransaction :: "string \<Rightarrow> string \<Rightarrow> transaction_doc io" where
  "updateTransaction transactionId status =
     io_bind (log_call (UpdateTransaction transactionId)) (\<lambda>_.
       if transactionId = [] then io_throw (Error ''transactionId and updates are required'')
       else (\<lambda>w.
         case first_doc (\<lambda>t. txn_id t = transactionId) (transactions w) of
           None \<Rightarrow> (Inl (Error ''Document not found''), w)
         | Some t \<Rightarrow>
             (Inr (t\<lparr>txn_status := status\<rparr>),
              w\<lparr>transactions :=
                  map (\<lambda>x. if txn_id x = transactionId then x\<lparr>txn_status := status\<rparr> else x)
                    (transactions w)\<rparr>)))"

text \<open>
  \<open>getUserTransactions(userId, limit)\<close>: the user's transactions, newest first by
  \<open>createdAt\<close>, cut at the limit. Documents with equal \<open>createdAt\<close> keep their document
  order.
\<close>

definition getUserTransactions :: "string \<Rightarrow> nat \<Rightarrow> transaction_doc list io" where
  "getUserTransactions userId limit =
     io_bind (log_call (GetUserTransactions userId limit)) (\<lambda>_.
       if userId = [] then io_throw (Error ''userId is required'')
       else (\<lambda>w. (Inr (take limit
                          (sort_key (\<lambda>t. - int (txn_createdAt t))
                             (filter (\<lambda>t. txn_userId t = userId) (transactions w)))), w)))"

definition findTransactionByReference :: "string \<Rightarrow> transaction_doc option io" where
  "findTransactionByReference reference =
     io_bind (log_call (FindTransactionByReference reference)) (\<lambda>_ w.
       (Inr (first_doc (\<lambda>t. txn_reference t = reference) (transactions w)), w))"

definition send_message :: "tgid \<Rightarrow> message \<Rightarrow> unit io" where
  "send_message chat m = log_call (SendMessage chat m)"

text \<open>\<open>userSessions.delete(chatId)\<close>.\<close>

definition delete_session :: "nat \<Rightarrow> unit io" where
  "delete_session chatId w =
     (Inr (), w\<lparr>userSessions := filter (\<lambda>(k, _). k \<noteq> chatId) (userSessions w)\<rparr>)"

section \<open>Strings\<close>

text \<open>\<open>s.split(c)\<close>: the pieces between the separators, empty pieces kept.\<close>

fun split_on :: "char \<Rightarrow> string \<Rightarrow> string list" where
  "split_on c [] = [[]]"
| "split_on c (x # xs) =
     (if x = c then [] # split_on c xs
      else (case split_on c xs of [] \<Rightarrow> [[x]] | p # ps \<Rightarrow> (x # p) # ps))"

text \<open>\<open>xs[i]\<close>: \<open>undefined\<close> out of range.\<close>

definition js_index :: "'a list \<Rightarrow> nat \<Rightarrow> 'a option" where
  "js_index xs i = (if i < length xs then Some (xs ! i) else None)"

text \<open>A reference as the handlers build it: \<open>`${prefix}_${userId}_${Date.now()}`\<close>.\<close>

definition make_reference :: "string \<Rightarrow> string \<Rightarrow> nat \<Rightarrow> string" where
  "make_reference prefix userId now = prefix @ ''_'' @ userId @ ''_'' @ show_nat now"

text \<open>The prefixes index.js uses: the four purchase flows and \<open>/fund\<close>.\<close>

definition reference_prefixes :: "string list" where
  "reference_prefixes = [''AIRTIME'', ''DATA'', ''ELEC'', ''TV'', ''FUND'']"

text \<open>\<open>reference.split("_")[1]\<close>, as the webhook handler recovers the user.\<close>

definition reference_userId :: "string \<Rightarrow> string option" where
  "reference_userId reference = js_index (split_on CHR ''_'' reference) 1"

section \<open>The payment gateway service (services/paystack.js)\<close>

text \<open>What the gateway's JSON body holds for the handlers: \<open>data.status\<close> of a
  verification and \<open>data.authorization_url\<close> of an initialization. The body of a
  resolved request is taken to have its \<open>data\<close> object, as the gateway's replies do; a
  body without one, on which reading \<open>data.status\<close> throws, is not modelled.\<close>

record paystack_response =
  pr_status :: "string option"
  pr_authorization_url :: "string option"

text \<open>How one axios request ends: resolved with the body, or rejected, with the HTTP
  status when the gateway answered.\<close>

datatype axios_result = Response paystack_response | Rejected "nat option"

definition maxRetries :: nat where
  "maxRetries = 3"

text \<open>
  \<open>makeRequest(url, data)\<close>, from the state of its loop: \<open>post k\<close> is how the request of
  attempt \<open>k\<close> ends. A rejection with status 429 before the last attempt sleeps
  \<open>2^attempt * 1000\<close> ms and tries again; every other rejection is thrown as it is.
\<close>

function makeRequest_from :: "(nat \<Rightarrow> axios_result) \<Rightarrow> nat \<Rightarrow> paystack_response option io"
  where
  "makeRequest_from post attempt w =
     (if attempt < maxRetries then
        (case post attempt of
           Response r \<Rightarrow> (Inr (Some r), w\<lparr>trace := trace w @ [HttpPost attempt]\<rparr>)
         | Rejected st \<Rightarrow>
             if st = Some 429 \<and> attempt < maxRetries - 1
             then makeRequest_from post (attempt + 1)
                    (w\<lparr>trace := trace w @ [HttpPost attempt, Sleep (2 ^ attempt * 1000)]\<rparr>)
             else (Inl (AxiosFailure st), w\<lparr>trace := trace w @ [HttpPost attempt]\<rparr>))
      else (Inr None, w))"
  by pat_completeness auto
termination
  by (relation "measure (\<lambda>(post, attempt, w). maxRetries - attempt)") auto

declare makeRequest_from.simps [simp del]

definition makeRequest :: "(nat \<Rightarrow> axios_result) \<Rightarrow> paystack_response option io" where
  "makeRequest post = makeRequest_from post 0"

text \<open>\<open>try { ... } catch (error) { throw new Error(message) }\<close>.\<close>

definition rethrow_as :: "string \<Rightarrow> 'a io \<Rightarrow> 'a io" where
  "rethrow_as msg m w = (case m w of (Inl e, w') \<Rightarrow> (Inl (Error msg), w') | r \<Rightarrow> r)"

definition initializePayment ::
    "(nat \<Rightarrow> axios_result) \<Rightarrow> string \<Rightarrow> jsnum \<Rightarrow> string \<Rightarrow> paystack_response io" where
  "initializePayment post email amount reference =
     io_bind (log_call (InitializePayment email amount reference)) (\<lambda>_.
       rethrow_as ''Payment initialization failed''
         (if email = [] \<or> js_falsy_num amount \<or> reference = []
          then io_throw (Error ''email, amount, and reference are required'')
          else io_bind (makeRequest post) (\<lambda>response.
                 case response of None \<Rightarrow> io_throw TypeError | Some r \<Rightarrow> io_return r)))"

text \<open>\<open>verifyPayment(reference)\<close>: one GET, \<open>get\<close> being how it ends.\<close>

definition verifyPayment :: "axios_result \<Rightarrow> string \<Rightarrow> paystack_response io" where
  "verifyPayment get reference =
     io_bind (log_call (VerifyPayment reference)) (\<lambda>_.
       rethrow_as ''Payment verification failed''
         (if reference = [] then io_throw (Error ''reference is required'')
          else io_bind (log_call HttpGet) (\<lambda>_.
                 case get of Response r \<Rightarrow> io_return r
                           | Rejected st \<Rightarrow> io_throw (AxiosFailure st))))"

section \<open>The payment webhook (index.js)\<close>

text \<open>The JSON body of a gateway event: \<open>event\<close>, \<open>data.reference\<close> and \<open>data.amount\<close>
  (in kobo).\<close>

record payload =
  p_event :: string
  p_reference :: string
  p_amount :: jsnum

text \<open>
  What the process is configured with and the library functions the handlers call:
  the gateway secret, \<open>crypto\<close>'s HMAC-SHA512 as hex text (key, then data),
  \<open>JSON.parse\<close> on a gateway event (\<open>None\<close> when it throws), \<open>parseFloat\<close>, and the
  billing service's test-mode flag.
\<close>

record env =
  secret :: string
  hmac_sha512_hex :: "string \<Rightarrow> string \<Rightarrow> string"
  json_parse :: "string \<Rightarrow> payload option"
  parseFloat :: "string \<Rightarrow> jsnum"
  vtpass_test_mode :: bool

text \<open>
  \<open>req.body\<close> as the webhook handler finds it: a raw buffer, the object a JSON body
  parser made of the body, or the empty value a parser leaves when it did not read the
  body.
\<close>

datatype req_body = Buffer string | Parsed payload | NotParsed

record http_request =
  content_type_json :: bool
  raw_body :: string
  signature_header :: "string option"

text \<open>A response: the status and the text sent.\<close>

type_synonym response = "nat \<times> string"

text \<open>
  The body of the handler's \<open>try\<close> block. The hash is taken of \<open>req.body\<close>;
  \<open>Hmac.update\<close> accepts a string or a buffer and throws a \<open>TypeError\<close> for any other
  value.
\<close>

definition webhook_try ::
    "env \<Rightarrow> axios_result \<Rightarrow> nat \<Rightarrow> req_body \<Rightarrow> string option \<Rightarrow> response io" where
  "webhook_try env get now body signature =
     (case body of
        Buffer raw \<Rightarrow>
          if Some (hmac_sha512_hex env (secret env) raw) \<noteq> signature
          then io_return (401, ''Invalid signature'')
          else
            (case json_parse env raw of
               None \<Rightarrow> io_throw SyntaxError
             | Some pl \<Rightarrow>
                 if p_event pl \<noteq> ''charge.success'' then io_return (200, ''Event ignored'')
                 else
                   let reference = p_reference pl;
                       amount = js_div (p_amount pl) 100;
                       userId = (case reference_userId reference of
                                   None \<Rightarrow> IdUndefined | Some u \<Rightarrow> IdStr u)
                   in
                   io_bind (getUserByTelegramId userId) (\<lambda>user.
                     case user of
                       None \<Rightarrow> io_return (400, ''User not found'')
                     | Some user \<Rightarrow>
                   io_bind (findTransactionByReference reference) (\<lambda>existingTransaction.
                     if (case existingTransaction of
                           None \<Rightarrow> False | Some t \<Rightarrow> txn_status t = ''success'')
                     then io_return (200, ''Transaction already processed'')
                     else
                   io_bind (verifyPayment get reference) (\<lambda>verification.
                     if pr_status verification \<noteq> Some ''success''
                     then io_return (400, ''Payment not successful'')
                     else
                   io_bind (updateWalletBalance (user_id user) amount ''credit'') (\<lambda>_.
                   io_bind
                     (case existingTransaction of
                        Some t \<Rightarrow> updateTransaction (txn_id t) ''success''
                      | None \<Rightarrow>
                          createTransaction (user_id user) ''credit'' amount
                            [(''reference'', reference), (''source'', ''Paystack'')]
                            ''success'' now) (\<lambda>_.
                   io_bind
                     (send_message (IdStr (user_telegramId user))
                        (WalletFunded (js_toFixed2 amount))) (\<lambda>_.
                   io_return (200, ''Webhook processed''))))))))
      | _ \<Rightarrow> io_throw TypeError)"

text \<open>The handler: whatever the \<open>try\<close> block throws becomes a 500 response.\<close>

definition webhook_handler ::
    "env \<Rightarrow> axios_result \<Rightarrow> nat \<Rightarrow> req_body \<Rightarrow> string option \<Rightarrow> world \<Rightarrow> response \<times> world"
  where
  "webhook_handler env get now body signature w =
     (case webhook_try env get now body signature w of
        (Inr r, w') \<Rightarrow> (r, w')
      | (Inl e, w') \<Rightarrow> ((500, ''Internal server error''), w'))"

text \<open>
  The middleware in front of the handler. \<open>app.use(bodyParser.json(...))\<close> runs on every
  request: a body of JSON content type is read and parsed there (a body that does not
  parse is answered with 400 by the parser), and the request is marked as read; any
  other request passes with an empty \<open>req.body\<close>. The route's own \<open>express.raw\<close> reads a
  JSON-typed body into a buffer only when no parser has read the request before it.
  Of the parser's refusals only the body that does not parse is modelled (not a body
  over the size limit or of an unsupported encoding), and of its answer only the status
  is meant: the text \<open>Bad Request\<close> stands for the error page Express sends.
\<close>

definition bodyParser_json :: "env \<Rightarrow> http_request \<Rightarrow> (req_body \<times> bool) option" where
  "bodyParser_json env req =
     (if content_type_json req \<and> raw_body req \<noteq> []
      then (case json_parse env (raw_body req) of
              None \<Rightarrow> None
            | Some pl \<Rightarrow> Some (Parsed pl, True))
      else Some (NotParsed, False))"

definition express_raw :: "http_request \<Rightarrow> req_body \<times> bool \<Rightarrow> req_body" where
  "express_raw req st =
     (case st of
        (body, already_read) \<Rightarrow>
          if already_read then body
          else if content_type_json req \<and> raw_body req \<noteq> [] then Buffer (raw_body req)
          else body)"

definition webhook_route ::
    "env \<Rightarrow> axios_result \<Rightarrow> nat \<Rightarrow> http_request \<Rightarrow> world \<Rightarrow> response \<times> world" where
  "webhook_route env get now req w =
     (case bodyParser_json env req of
        None \<Rightarrow> ((400, ''Bad Request''), w)
      | Some st \<Rightarrow>
          webhook_handler env get now (express_raw req st) (signature_header req) w)"

section \<open>The polling fallback (index.js)\<close>

record poll_loop =
  pl_reference :: string
  pl_userId :: tgid
  pl_amount :: jsnum
  pl_chatId :: nat
  pl_maxAttempts :: nat

text \<open>
  The \<open>try\<close> block of one tick of \<open>pollPaymentStatus\<close>. It returns \<open>True\<close> when the
  callback returns from inside the block (the transaction was already processed), so
  that the code after the block does not run.
\<close>

definition poll_try :: "poll_loop \<Rightarrow> axios_result \<Rightarrow> nat \<Rightarrow> bool io" where
  "poll_try p get now =
     io_bind (verifyPayment get (pl_reference p)) (\<lambda>verification.
       if pr_status verification = Some ''success'' then
         io_bind (log_call ClearInterval) (\<lambda>_.
         io_bind (getUserByTelegramId (pl_userId p)) (\<lambda>user.
           case user of
             None \<Rightarrow> io_throw TypeError
           | Some user \<Rightarrow>
         io_bind (getUserTransactions (user_id user) 10) (\<lambda>transactions.
           let transaction =
                 find (\<lambda>t. map_of (txn_details t) ''reference'' = Some (pl_reference p))
                   transactions
           in
           if (case transaction of None \<Rightarrow> False | Some t \<Rightarrow> txn_status t = ''success'')
           then io_return True
           else
         io_bind (updateWalletBalance (user_id user) (pl_amount p) ''credit'') (\<lambda>_.
         io_bind
           (case transaction of
              Some t \<Rightarrow> updateTransaction (txn_id t) ''success''
            | None \<Rightarrow>
                createTransaction (user_id user) ''credit'' (pl_amount p)
                  [(''reference'', pl_reference p), (''source'', ''Paystack''),
                   (''method'', ''polling'')]
                  ''success'' now) (\<lambda>_.
         io_bind
           (send_message (IdNum (pl_chatId p)) (WalletFunded (js_toFixed2 (pl_amount p))))
           (\<lambda>_.
         io_bind (delete_session (pl_chatId p)) (\<lambda>_. io_return False)))))))
       else if pr_status verification = Some ''failed'' then
         io_bind (log_call ClearInterval) (\<lambda>_.
         io_bind (send_message (IdNum (pl_chatId p)) PaymentFailed) (\<lambda>_.
         io_bind (delete_session (pl_chatId p)) (\<lambda>_. io_return False)))
       else io_return False)"

text \<open>What the callback does once the attempts are used up.\<close>

definition poll_timeout :: "poll_loop \<Rightarrow> world \<Rightarrow> world" where
  "poll_timeout p w =
     snd (io_bind (log_call ClearInterval) (\<lambda>_.
          io_bind (send_message (IdNum (pl_chatId p)) PaymentTimedOut) (\<lambda>_.
          delete_session (pl_chatId p))) w)"

text \<open>
  One tick of the timer, on the attempt counter and the world: the \<open>try\<close> block, its
  \<open>catch\<close> (which only logs), then \<open>attempts++\<close> and the exhaustion check, unless the
  block returned.
\<close>

definition poll_tick :: "poll_loop \<Rightarrow> axios_result \<Rightarrow> nat \<Rightarrow> nat \<times> world \<Rightarrow> nat \<times> world" where
  "poll_tick p get now st =
     (case st of
        (attempts, w) \<Rightarrow>
          (case poll_try p get now w of
             (Inr True, w') \<Rightarrow> (attempts, w')
           | (_, w') \<Rightarrow>
               if attempts + 1 \<ge> pl_maxAttempts p
               then (attempts + 1, poll_timeout p w')
               else (attempts + 1, w')))"

section \<open>More strings\<close>

text \<open>\<open>trim\<close>, \<open>toLowerCase\<close>, \<open>startsWith\<close> and the two regular-expression replacements
  of the message handler, on ASCII text.\<close>

definition is_space :: "char \<Rightarrow> bool" where
  "is_space c = (c \<in> set [CHR 0x20, CHR 0x09, CHR 0x0A, CHR 0x0B, CHR 0x0C, CHR 0x0D])"

definition js_trim :: "string \<Rightarrow> string" where
  "js_trim s = rev (dropWhile is_space (rev (dropWhile is_space s)))"

definition lower_char :: "char \<Rightarrow> char" where
  "lower_char c =
     (case map_of (zip ''ABCDEFGHIJKLMNOPQRSTUVWXYZ'' ''abcdefghijklmnopqrstuvwxyz'') c of
        None \<Rightarrow> c | Some l \<Rightarrow> l)"

definition js_lower :: "string \<Rightarrow> string" where
  "js_lower s = map lower_char s"

definition starts_with :: "string \<Rightarrow> string \<Rightarrow> bool" where
  "starts_with p s = (take (length p) s = p)"

text \<open>\<open>text.replace(/[<>{}]/g, "")\<close>.\<close>

definition sanitize :: "string \<Rightarrow> string" where
  "sanitize s = filter (\<lambda>c. c \<notin> set ''<>{}'') s"

definition is_digit :: "char \<Rightarrow> bool" where
  "is_digit c = (c \<in> set ''0123456789'')"

text \<open>A field that may be \<open>undefined\<close>, where the code only tests it for truthiness or
  prints it: \<open>undefined\<close> and the empty string are both falsy.\<close>

definition opt_str :: "string option \<Rightarrow> string" where
  "opt_str x = (case x of None \<Rightarrow> [] | Some v \<Rightarrow> v)"

section \<open>The billing service (services/vtpass.js)\<close>

text \<open>
  What the handlers read of a purchase response: \<open>code\<close>, \<open>response_description\<close> and
  \<open>content?.transactions?.status\<close>, each \<open>None\<close> when absent.
\<close>

record vt_result =
  vt_code :: "string option"
  vt_response_description :: "string option"
  vt_delivery_status :: "string option"

text \<open>A variation-list response: \<open>code\<close> and, when present, the list-valued entries of
  \<open>content\<close> by key.\<close>

record variations_response =
  vr_code :: string
  vr_content :: "(string \<times> variation list) list option"

text \<open>How the provider's API answers a request, if one is made.\<close>

datatype 'a outcome = Answered 'a | NoAnswer

record vtpass_api =
  pay_outcome :: "vt_result outcome"
  variations_outcome :: "variations_response outcome"

definition simulateTestResponse :: vt_result where
  "simulateTestResponse =
     \<lparr>vt_code = Some ''000'', vt_response_description = Some ''SUCCESS'',
      vt_delivery_status = Some ''delivered''\<rparr>"

text \<open>\<open>makeRequest("pay", data)\<close>: simulated in test mode, else the provider's answer;
  no answer becomes \<open>Service temporarily unavailable\<close>.\<close>

definition vtpass_pay :: "env \<Rightarrow> vtpass_api \<Rightarrow> vt_result io" where
  "vtpass_pay env api =
     (if vtpass_test_mode env then io_return simulateTestResponse
      else (case pay_outcome api of
              Answered r \<Rightarrow> io_return r
            | NoAnswer \<Rightarrow> io_throw (Error ''Service temporarily unavailable'')))"

definition buyAirtime :: "env \<Rightarrow> vtpass_api \<Rightarrow> string \<Rightarrow> jsnum \<Rightarrow> string \<Rightarrow> vt_result io" where
  "buyAirtime env api serviceID amount phone =
     io_bind (log_call (BuyAirtime serviceID amount phone)) (\<lambda>_.
       if serviceID = [] \<or> js_falsy_num amount \<or> phone = []
       then io_throw (Error ''serviceID, amount, and phone are required'')
       else vtpass_pay env api)"

definition buyData :: "env \<Rightarrow> vtpass_api \<Rightarrow> string \<Rightarrow> string \<Rightarrow> string \<Rightarrow> vt_result io" where
  "buyData env api serviceID vcode phone =
     io_bind (log_call (BuyData serviceID vcode phone)) (\<lambda>_.
       if serviceID = [] \<or> vcode = [] \<or> phone = []
       then io_throw (Error ''serviceID, variation_code, and phone are required'')
       else vtpass_pay env api)"

definition payElectricityBill ::
    "env \<Rightarrow> vtpass_api \<Rightarrow> string \<Rightarrow> string \<Rightarrow> string \<Rightarrow> jsnum \<Rightarrow> string \<Rightarrow> vt_result io" where
  "payElectricityBill env api serviceID billersCode vcode amount phone =
     io_bind (log_call (PayElectricityBill serviceID billersCode vcode amount phone)) (\<lambda>_.
       if serviceID = [] \<or> billersCode = [] \<or> vcode = [] \<or> js_falsy_num amount \<or> phone = []
       then io_throw (Error ''All parameters are required'')
       else vtpass_pay env api)"

definition payTvSubscription ::
    "env \<Rightarrow> vtpass_api \<Rightarrow> string \<Rightarrow> string \<Rightarrow> string \<Rightarrow> vt_result io" where
  "payTvSubscription env api serviceID billersCode vcode =
     io_bind (log_call (PayTvSubscription serviceID billersCode vcode)) (\<lambda>_.
       if serviceID = [] \<or> billersCode = [] \<or> vcode = []
       then io_throw (Error ''serviceID, billersCode, and variation_code are required'')
       else vtpass_pay env api)"

text \<open>\<open>getMockVariations(serviceID)\<close>: the two mocked services keep their plans under
  the key \<open>variations\<close>; any other service gets code 001 and no content.\<close>

definition getMockVariations :: "string \<Rightarrow> variations_response" where
  "getMockVariations serviceID =
     (if serviceID = ''mtn-data'' then
        \<lparr>vr_code = ''000'',
         vr_content = Some [(''variations'',
           [\<lparr>variation_code = ''M1024'', var_name = ''MTN Data 1GB'', variation_amount = ''500''\<rparr>,
            \<lparr>variation_code = ''M2024'', var_name = ''MTN Data 2GB'', variation_amount = ''1000''\<rparr>,
            \<lparr>variation_code = ''M3024'', var_name = ''MTN Data 3GB'', variation_amount = ''1500''\<rparr>,
            \<lparr>variation_code = ''M5024'', var_name = ''MTN Data 5GB'',
              variation_amount = ''2500''\<rparr>])]\<rparr>
      else if serviceID = ''dstv'' then
        \<lparr>vr_code = ''000'',
         vr_content = Some [(''variations'',
           [\<lparr>variation_code = ''dstv-padi'', var_name = ''DStv Padi'', variation_amount = ''2500''\<rparr>,
            \<lparr>variation_code = ''dstv-confam'', var_name = ''DStv Confam'',
              variation_amount = ''5500''\<rparr>,
            \<lparr>variation_code = ''dstv-compact'', var_name = ''DStv Compact'',
              variation_amount = ''12000''\<rparr>])]\<rparr>
      else \<lparr>vr_code = ''001'', vr_content = None\<rparr>)"

definition getVariations :: "env \<Rightarrow> vtpass_api \<Rightarrow> string \<Rightarrow> variations_response io" where
  "getVariations env api serviceID =
     io_bind (log_call (GetVariations serviceID)) (\<lambda>_.
       if serviceID = [] then io_throw (Error ''serviceID is required'')
       else if vtpass_test_mode env then io_return (getMockVariations serviceID)
       else (case variations_outcome api of
               Answered r \<Rightarrow> io_return r
             | NoAnswer \<Rightarrow> io_throw (Error ''Service temporarily unavailable'')))"

section \<open>The message handler (index.js)\<close>

record tg_message =
  m_chatId :: nat
  m_fromId :: nat
  m_text :: "string option"
  m_callback_query :: bool

text \<open>The session object a chat gets on its first event: only \<open>lastActivity\<close> is set.\<close>

definition new_session :: "nat \<Rightarrow> session" where
  "new_session now =
     \<lparr>s_stage = None, s_lastActivity = now, s_airtimeNetwork = None, s_airtimeAmount = NaN,
      s_phone = None, s_dataNetwork = None, s_dataPhone = None, s_variations = [],
      s_variation = None, s_electricityProvider = None, s_meter = None, s_amount = NaN,
      s_tvProvider = None, s_card = None\<rparr>"

text \<open>A write to a field of the chat's session object, as seen in the session map.\<close>

definition session_put ::
    "nat \<Rightarrow> session \<Rightarrow> (nat \<times> session) list \<Rightarrow> (nat \<times> session) list" where
  "session_put chatId session xs =
     (if chatId \<in> set (map fst xs)
      then map (\<lambda>(k, v). if k = chatId then (k, session) else (k, v)) xs
      else xs @ [(chatId, session)])"

definition put_session :: "nat \<Rightarrow> session \<Rightarrow> unit io" where
  "put_session chatId session w =
     (Inr (), w\<lparr>userSessions := session_put chatId session (userSessions w)\<rparr>)"

text \<open>The verdict on a purchase and the text of a failure notice.\<close>

definition purchase_status :: "vt_result \<Rightarrow> string" where
  "purchase_status result =
     (if vt_code result = Some ''000'' \<and> vt_delivery_status result = Some ''delivered''
      then ''success'' else ''failed'')"

definition failure_text :: "vt_result \<Rightarrow> string" where
  "failure_text result =
     (if opt_str (vt_response_description result) = [] then ''Unknown error''
      else opt_str (vt_response_description result))"

text \<open>Of the top-level entries of the provider's response that \<open>...result\<close> spreads
  into the details, the two the handlers read; the others (\<open>content\<close>, \<open>amount\<close>,
  \<open>phone\<close>, \<open>date\<close> and the like) are left out of the details.\<close>

definition result_entries :: "vt_result \<Rightarrow> (string \<times> string) list" where
  "result_entries result =
     (case vt_code result of None \<Rightarrow> [] | Some c \<Rightarrow> [(''code'', c)]) @
     (case vt_response_description result of
        None \<Rightarrow> [] | Some d \<Rightarrow> [(''response_description'', d)])"

text \<open>\<open>wallet || wallet.balance < cost\<close> negated: the test that aborts a purchase.\<close>

definition cannot_pay :: "wallet_doc option \<Rightarrow> jsnum \<Rightarrow> bool" where
  "cannot_pay wallet cost =
     (case wallet of None \<Rightarrow> True | Some wl \<Rightarrow> js_lt (Num (wallet_balance wl)) cost)"

definition confirm_airtime_branch ::
    "env \<Rightarrow> vtpass_api \<Rightarrow> nat \<Rightarrow> nat \<Rightarrow> nat \<Rightarrow> session \<Rightarrow> string \<Rightarrow> unit io" where
  "confirm_airtime_branch env api now chatId userId session sanitizedText =
     (if js_lower sanitizedText = ''yes'' then
        io_bind (put_session chatId (session\<lparr>s_stage := None\<rparr>)) (\<lambda>_.
        io_bind (getUserByTelegramId (IdNum userId)) (\<lambda>user.
          case user of
            None \<Rightarrow> io_throw TypeError
          | Some user \<Rightarrow>
        io_bind (getUserWallet (user_id user)) (\<lambda>wallet.
          if cannot_pay wallet (s_airtimeAmount session) then
            io_bind (delete_session chatId) (\<lambda>_.
            send_message (IdNum chatId) InsufficientBalanceFund)
          else
        io_bind (updateWalletBalance (user_id user) (s_airtimeAmount session) ''debit'') (\<lambda>_.
          case s_airtimeNetwork session of
            None \<Rightarrow> io_throw TypeError
          | Some net \<Rightarrow>
        io_bind (buyAirtime env api (airtime_code net) (s_airtimeAmount session)
                   (opt_str (s_phone session))) (\<lambda>result.
          let transactionStatus = purchase_status result in
        io_bind (createTransaction (user_id user) ''airtime'' (s_airtimeAmount session)
                   ([(''reference'', make_reference ''AIRTIME'' (user_id user) now),
                     (''network'', net_name net),
                     (''phone'', opt_str (s_phone session))] @ result_entries result)
                   transactionStatus now) (\<lambda>_.
        io_bind (delete_session chatId) (\<lambda>_.
        send_message (IdNum chatId)
          (if transactionStatus = ''success''
           then AirtimeSent (opt_str (s_phone session)) (net_name net)
           else AirtimeFailed (failure_text result)))))))))
      else if js_lower sanitizedText = ''cancel'' then
        io_bind (delete_session chatId) (\<lambda>_.
        send_message (IdNum chatId) (PurchaseCancelled ''Airtime purchase''))
      else send_message (IdNum chatId) SendYesOrCancel)"

definition confirm_data_branch ::
    "env \<Rightarrow> vtpass_api \<Rightarrow> nat \<Rightarrow> nat \<Rightarrow> nat \<Rightarrow> session \<Rightarrow> string \<Rightarrow> unit io" where
  "confirm_data_branch env api now chatId userId session sanitizedText =
     (if js_lower sanitizedText = ''yes'' then
        io_bind (put_session chatId (session\<lparr>s_stage := None\<rparr>)) (\<lambda>_.
        io_bind (getUserByTelegramId (IdNum userId)) (\<lambda>user.
          case user of
            None \<Rightarrow> io_throw TypeError
          | Some user \<Rightarrow>
        io_bind (getUserWallet (user_id user)) (\<lambda>wallet.
          case s_variation session of
            None \<Rightarrow> io_throw TypeError
          | Some v \<Rightarrow>
          let cost = parseFloat env (variation_amount v) in
          if cannot_pay wallet cost then
            io_bind (delete_session chatId) (\<lambda>_.
            send_message (IdNum chatId) InsufficientBalanceFund)
          else
        io_bind (updateWalletBalance (user_id user) cost ''debit'') (\<lambda>_.
          case s_dataNetwork session of
            None \<Rightarrow> io_throw TypeError
          | Some net \<Rightarrow>
        io_bind (buyData env api (data_code net) (variation_code v)
                   (opt_str (s_dataPhone session))) (\<lambda>result.
          let transactionStatus = purchase_status result in
        io_bind (createTransaction (user_id user) ''data'' cost
                   ([(''reference'', make_reference ''DATA'' (user_id user) now),
                     (''network'', net_name net), (''plan'', var_name v),
                     (''phone'', opt_str (s_dataPhone session))] @ result_entries result)
                   transactionStatus now) (\<lambda>_.
        io_bind (delete_session chatId) (\<lambda>_.
        send_message (IdNum chatId)
          (if transactionStatus = ''success''
           then DataSent (opt_str (s_dataPhone session)) (net_name net) (var_name v)
           else DataFailed (failure_text result)))))))))
      else if js_lower sanitizedText = ''cancel'' then
        io_bind (delete_session chatId) (\<lambda>_.
        send_message (IdNum chatId) (PurchaseCancelled ''Data purchase''))
      else send_message (IdNum chatId) SendYesOrCancel)"

definition confirm_electricity_branch ::
    "env \<Rightarrow> vtpass_api \<Rightarrow> nat \<Rightarrow> nat \<Rightarrow> nat \<Rightarrow> session \<Rightarrow> string \<Rightarrow> unit io" where
  "confirm_electricity_branch env api now chatId userId session sanitizedText =
     (if js_lower sanitizedText = ''yes'' then
        io_bind (put_session chatId (session\<lparr>s_stage := None\<rparr>)) (\<lambda>_.
        io_bind (getUserByTelegramId (IdNum userId)) (\<lambda>user.
          case user of
            None \<Rightarrow> io_throw TypeError
          | Some user \<Rightarrow>
        io_bind (getUserWallet (user_id user)) (\<lambda>wallet.
          if cannot_pay wallet (s_amount session) then
            io_bind (delete_session chatId) (\<lambda>_.
            send_message (IdNum chatId) InsufficientBalance)
          else
        io_bind (updateWalletBalance (user_id user) (s_amount session) ''debit'') (\<lambda>_.
          case s_electricityProvider session of
            None \<Rightarrow> io_throw TypeError
          | Some prov \<Rightarrow>
        io_bind (payElectricityBill env api (prov_code prov) (opt_str (s_meter session))
                   ''prepaid'' (s_amount session)
                   (if opt_str (s_phone session) = [] then ''08012345678''
                    else opt_str (s_phone session))) (\<lambda>result.
          let transactionStatus = purchase_status result in
        io_bind (createTransaction (user_id user) ''electricity'' (s_amount session)
                   ([(''reference'', make_reference ''ELEC'' (user_id user) now),
                     (''provider'', prov_name prov),
                     (''meter'', opt_str (s_meter session))] @ result_entries result)
                   transactionStatus now) (\<lambda>_.
        io_bind (delete_session chatId) (\<lambda>_.
        send_message (IdNum chatId)
          (if transactionStatus = ''success''
           then ElectricityPaid (opt_str (s_meter session))
           else ElectricityFailed (failure_text result)))))))))
      else if js_lower sanitizedText = ''cancel'' then
        io_bind (delete_session chatId) (\<lambda>_.
        send_message (IdNum chatId) (PurchaseCancelled ''Electricity payment''))
      else send_message (IdNum chatId) SendYesOrCancel)"

definition confirm_tv_branch ::
    "env \<Rightarrow> vtpass_api \<Rightarrow> nat \<Rightarrow> nat \<Rightarrow> nat \<Rightarrow> session \<Rightarrow> string \<Rightarrow> unit io" where
  "confirm_tv_branch env api now chatId userId session sanitizedText =
     (if js_lower sanitizedText = ''yes'' then
        io_bind (put_session chatId (session\<lparr>s_stage := None\<rparr>)) (\<lambda>_.
        io_bind (getUserByTelegramId (IdNum userId)) (\<lambda>user.
          case user of
            None \<Rightarrow> io_throw TypeError
          | Some user \<Rightarrow>
        io_bind (getUserWallet (user_id user)) (\<lambda>wallet.
          case s_variation session of
            None \<Rightarrow> io_throw TypeError
          | Some v \<Rightarrow>
          let cost = parseFloat env (variation_amount v) in
          if cannot_pay wallet cost then
            io_bind (delete_session chatId) (\<lambda>_.
            send_message (IdNum chatId) InsufficientBalance)
          else
        io_bind (updateWalletBalance (user_id user) cost ''debit'') (\<lambda>_.
          case s_tvProvider session of
            None \<Rightarrow> io_throw TypeError
          | Some prov \<Rightarrow>
        io_bind (payTvSubscription env api (prov_code prov) (opt_str (s_card session))
                   (variation_code v)) (\<lambda>result.
          let transactionStatus = purchase_status result in
        io_bind (createTransaction (user_id user) ''tv'' cost
                   ([(''reference'', make_reference ''TV'' (user_id user) now),
                     (''provider'', prov_name prov), (''card'', opt_str (s_card session)),
                     (''plan'', var_name v)] @ result_entries result)
                   transactionStatus now) (\<lambda>_.
        io_bind (delete_session chatId) (\<lambda>_.
        send_message (IdNum chatId)
          (if transactionStatus = ''success''
           then TvCompleted (opt_str (s_card session))
           else TvFailed (failure_text result)))))))))
      else if js_lower sanitizedText = ''cancel'' then
        io_bind (delete_session chatId) (\<lambda>_.
        send_message (IdNum chatId) (PurchaseCancelled ''TV payment''))
      else send_message (IdNum chatId) SendYesOrCancel)"

text \<open>\<open>variations.content?.varations || []\<close>: the plan list is read under the key
  \<open>varations\<close>.\<close>

definition read_varations :: "variations_response \<Rightarrow> variation list" where
  "read_varations r =
     (case vr_content r of
        None \<Rightarrow> []
      | Some content \<Rightarrow> (case map_of content ''varations'' of None \<Rightarrow> [] | Some vs \<Rightarrow> vs))"

definition awaiting_data_phone_branch ::
    "env \<Rightarrow> vtpass_api \<Rightarrow> nat \<Rightarrow> session \<Rightarrow> string \<Rightarrow> unit io" where
  "awaiting_data_phone_branch env api chatId session sanitizedText =
     (let phone = filter is_digit sanitizedText in
      if \<not> (10 \<le> length phone \<and> length phone \<le> 14)
      then send_message (IdNum chatId) InvalidPhone
      else
        let session1 = session\<lparr>s_dataPhone := Some phone,
                                s_stage := Some awaiting_data_variation\<rparr>
        in
        io_bind (put_session chatId session1) (\<lambda>_.
          case s_dataNetwork session of
            None \<Rightarrow> io_throw TypeError
          | Some net \<Rightarrow>
        io_bind (getVariations env api (data_code net)) (\<lambda>variations.
        io_bind (put_session chatId (session1\<lparr>s_variations := read_varations variations\<rparr>))
          (\<lambda>_.
          if read_varations variations = [] then
            io_bind (delete_session chatId) (\<lambda>_.
            send_message (IdNum chatId) (NoDataPlans (net_name net)))
          else send_message (IdNum chatId) (ChooseDataPlan (net_name net))))))"

definition awaiting_card_number_branch ::
    "env \<Rightarrow> vtpass_api \<Rightarrow> nat \<Rightarrow> session \<Rightarrow> string \<Rightarrow> unit io" where
  "awaiting_card_number_branch env api chatId session sanitizedText =
     (let card = js_trim sanitizedText in
      if \<not> (list_all is_digit card \<and> 10 \<le> length card)
      then send_message (IdNum chatId) InvalidCard
      else
        let session1 = session\<lparr>s_card := Some card, s_stage := Some awaiting_tv_variation\<rparr>
        in
        io_bind (put_session chatId session1) (\<lambda>_.
          case s_tvProvider session of
            None \<Rightarrow> io_throw TypeError
          | Some prov \<Rightarrow>
        io_bind (getVariations env api (prov_code prov)) (\<lambda>variations.
        io_bind (put_session chatId (session1\<lparr>s_variations := read_varations variations\<rparr>))
          (\<lambda>_.
          if read_varations variations = [] then
            io_bind (delete_session chatId) (\<lambda>_.
            send_message (IdNum chatId) (NoTvPlans (prov_name prov)))
          else send_message (IdNum chatId) (ChooseTvPlan (prov_name prov))))))"

text \<open>
  The stage branch a message is handled by. The branches that collect amounts, phone
  numbers and plan choices, the meter verification, and the commands and menu entries
  below the stage branches are not modelled: for them the result is \<open>None\<close>.
\<close>

definition stage_branch ::
    "env \<Rightarrow> vtpass_api \<Rightarrow> nat \<Rightarrow> nat \<Rightarrow> nat \<Rightarrow> session \<Rightarrow> string \<Rightarrow> unit io option" where
  "stage_branch env api now chatId userId session sanitizedText =
     (case s_stage session of
        Some confirm_airtime \<Rightarrow>
          Some (confirm_airtime_branch env api now chatId userId session sanitizedText)
      | Some awaiting_data_phone \<Rightarrow>
          Some (awaiting_data_phone_branch env api chatId session sanitizedText)
      | Some confirm_data \<Rightarrow>
          Some (confirm_data_branch env api now chatId userId session sanitizedText)
      | Some confirm_electricity \<Rightarrow>
          Some (confirm_electricity_branch env api now chatId userId session sanitizedText)
      | Some awaiting_card_number \<Rightarrow>
          Some (awaiting_card_number_branch env api chatId session sanitizedText)
      | Some confirm_tv \<Rightarrow>
          Some (confirm_tv_branch env api now chatId userId session sanitizedText)
      | _ \<Rightarrow> None)"

text \<open>The handler's \<open>catch\<close>: the session is deleted and the reset message sent.\<close>

definition handler_catch :: "nat \<Rightarrow> unit io \<Rightarrow> world \<Rightarrow> world" where
  "handler_catch chatId body w =
     (case body w of
        (Inr _, w') \<Rightarrow> w'
      | (Inl e, w') \<Rightarrow>
          snd (io_bind (delete_session chatId) (\<lambda>_.
               send_message (IdNum chatId) SomethingWentWrong) w'))"

text \<open>
  The message handler: messages without text, callback echoes and the \<open>/start\<close> and
  \<open>/cancel\<close> commands are left to other handlers; the chat's session is created if
  absent and its \<open>lastActivity\<close> set; the text is sanitized and the stage branch runs
  inside the \<open>try\<close>.
\<close>

definition message_handler ::
    "env \<Rightarrow> vtpass_api \<Rightarrow> nat \<Rightarrow> tg_message \<Rightarrow> world \<Rightarrow> world option" where
  "message_handler env api now msg w =
     (case m_text msg of
        None \<Rightarrow> Some w
      | Some raw \<Rightarrow>
          let text = js_trim raw in
          if text = [] \<or> m_callback_query msg \<or> starts_with ''/start'' text
             \<or> starts_with ''/cancel'' text
          then Some w
          else
            let chatId = m_chatId msg;
                session0 = (case map_of (userSessions w) chatId of
                              None \<Rightarrow> new_session now | Some s \<Rightarrow> s);
                session = session0\<lparr>s_lastActivity := now\<rparr>;
                w1 = snd (put_session chatId session w)
            in (case stage_branch env api now chatId (m_fromId msg) session (sanitize text) of
                  None \<Rightarrow> None
                | Some body \<Rightarrow> Some (handler_catch chatId body w1)))"

section \<open>Observing a run\<close>

text \<open>The calls a run added to the trace.\<close>

definition new_calls :: "world \<Rightarrow> world \<Rightarrow> call list" where
  "new_calls w w' = drop (length (trace w)) (trace w')"

fun is_http_post :: "call \<Rightarrow> bool" where
  "is_http_post (HttpPost k) = True"
| "is_http_post c = False"

fun is_http_get :: "call \<Rightarrow> bool" where
  "is_http_get HttpGet = True"
| "is_http_get c = False"

fun is_message :: "call \<Rightarrow> bool" where
  "is_message (SendMessage chat m) = True"
| "is_message c = False"

text \<open>A small store for examples: one user (Telegram id 42) with a wallet of 100.\<close>

definition sample_world :: world where
  "sample_world =
     \<lparr>users = [\<lparr>user_id = ''u1'', user_telegramId = ''42''\<rparr>],
      wallets = [\<lparr>wallet_id = ''w1'', wallet_userId = ''u1'', wallet_balance = 100\<rparr>],
      transactions = [], userSessions = [], next_id = 0, trace = []\<rparr>"

section \<open>Payment signals\<close>

text \<open>
  A signal for a funding reference: a delivery of the gateway's webhook, which is an
  HTTP request to the webhook route and passes the middleware in front of the handler,
  or a tick of the polling timer. Signals are handled one at a time, each at its own
  clock reading; the attempt counter of the polling loop is threaded through.
\<close>

datatype signal = PushSignal http_request | PollSignal

fun is_tick :: "signal \<Rightarrow> bool" where
  "is_tick PollSignal = True"
| "is_tick (PushSignal req) = False"

fun deliver :: "env \<Rightarrow> axios_result \<Rightarrow> poll_loop \<Rightarrow> nat \<times> signal \<Rightarrow> nat \<times> world \<Rightarrow> nat \<times> world" where
  "deliver env get p (now, PushSignal req) (attempts, w) =
     (attempts, snd (webhook_route env get now req w))"
| "deliver env get p (now, PollSignal) st = poll_tick p get now st"

fun run_signals ::
  "env \<Rightarrow> axios_result \<Rightarrow> poll_loop \<Rightarrow> (nat \<times> signal) list \<Rightarrow> nat \<times> world \<Rightarrow> nat \<times> world" where
  "run_signals env get p [] st = st"
| "run_signals env get p (s # ss) st = run_signals env get p ss (deliver env get p s st)"

text \<open>
  An environment and a store for examples. The HMAC, the JSON parser and \<open>parseFloat\<close>
  of the example environment are stand-ins: the handler only compares the hash with the
  header, reads three fields of the parsed event, and parses one plan price. In the store, user 42 started a funding of
  500 at time 1000 (transaction \<open>FUND_42_1000\<close>, pending) and has made ten airtime
  purchases since.
\<close>

definition demo_env :: env where
  "demo_env =
     \<lparr>secret = ''sk_test_1'',
      hmac_sha512_hex = (\<lambda>key data. key @ '':'' @ data),
      json_parse = (\<lambda>raw. if raw = ''charge.success FUND_42_1000 50000''
                           then Some \<lparr>p_event = ''charge.success'', p_reference = ''FUND_42_1000'',
                                      p_amount = Num 50000\<rparr>
                           else None),
      parseFloat = (\<lambda>s. if s = ''500'' then Num 500 else NaN),
      vtpass_test_mode = True\<rparr>"

definition purchase_txn :: "string \<Rightarrow> nat \<Rightarrow> transaction_doc" where
  "purchase_txn i t =
     \<lparr>txn_id = i, txn_userId = ''u1'', txn_type = ''airtime'',
      txn_amount = 50, txn_reference = ''AIRTIME_u1_'' @ i,
      txn_details = [(''reference'', ''AIRTIME_u1_'' @ i)],
      txn_status = ''success'', txn_createdAt = t\<rparr>"

definition fund_txn :: "string \<Rightarrow> transaction_doc" where
  "fund_txn status =
     \<lparr>txn_id = ''1000'', txn_userId = ''u1'', txn_type = ''credit'', txn_amount = 500,
      txn_reference = ''FUND_42_1000'',
      txn_details = [(''reference'', ''FUND_42_1000''), (''method'', ''paystack'')],
      txn_status = status, txn_createdAt = 1000\<rparr>"

definition ten_purchases :: "transaction_doc list" where
  "ten_purchases =
     [purchase_txn ''1001'' 1001, purchase_txn ''1002'' 1002, purchase_txn ''1003'' 1003,
      purchase_txn ''1004'' 1004, purchase_txn ''1005'' 1005, purchase_txn ''1006'' 1006,
      purchase_txn ''1007'' 1007, purchase_txn ''1008'' 1008, purchase_txn ''1009'' 1009,
      purchase_txn ''1010'' 1010]"

definition crowded_world :: world where
  "crowded_world =
     \<lparr>users = [\<lparr>user_id = ''u1'', user_telegramId = ''42''\<rparr>],
      wallets = [\<lparr>wallet_id = ''w1'', wallet_userId = ''u1'', wallet_balance = 100\<rparr>],
      transactions = fund_txn ''pending'' # ten_purchases,
      userSessions = [], next_id = 11, trace = []\<rparr>"

definition fund_poll :: poll_loop where
  "fund_poll = \<lparr>pl_reference = ''FUND_42_1000'', pl_userId = IdNum 42, pl_amount = Num 500,
                pl_chatId = 42, pl_maxAttempts = 30\<rparr>"

definition paid :: axios_result where
  "paid = Response \<lparr>pr_status = Some ''success'', pr_authorization_url = None\<rparr>"

definition success_count :: "string \<Rightarrow> world \<Rightarrow> nat" where
  "success_count reference w =
     length (filter (\<lambda>t. txn_reference t = reference \<and> txn_status t = ''success'')
               (transactions w))"

text \<open>The gateway's webhook request for the example funding: a \<open>charge.success\<close>
  event for \<open>FUND_42_1000\<close> and 50000 kobo, of JSON content type, with the signature
  the example environment computes for its body.\<close>

definition push_request :: http_request where
  "push_request =
     \<lparr>content_type_json = True, raw_body = ''charge.success FUND_42_1000 50000'',
      signature_header = Some ''sk_test_1:charge.success FUND_42_1000 50000''\<rparr>"

definition push_signal :: signal where
  "push_signal = PushSignal push_request"

text \<open>The transaction a polling tick at time 21000 creates for the example funding
  when it finds none, and the example store after that tick.\<close>

definition poll_txn :: transaction_doc where
  "poll_txn =
     \<lparr>txn_id = ''doc11'', txn_userId = ''u1'', txn_type = ''credit'', txn_amount = 500,
      txn_reference = ''FUND_42_1000'',
      txn_details = [(''reference'', ''FUND_42_1000''), (''source'', ''Paystack''),
                     (''method'', ''polling'')],
      txn_status = ''success'', txn_createdAt = 21000\<rparr>"

definition after_tick :: world where
  "after_tick =
    crowded_world
      \<lparr>wallets := [\<lparr>wallet_id = ''w1'', wallet_userId = ''u1'', wallet_balance = 600\<rparr>],
       transactions := fund_txn ''pending'' # ten_purchases @ [poll_txn],
       next_id := 12,
       trace := [VerifyPayment ''FUND_42_1000'', HttpGet, ClearInterval,
                 GetUserByTelegramId (IdNum 42), GetUserTransactions ''u1'' 10,
                 UpdateWalletBalance ''u1'' (Num 500) ''credit'', GetUserWallet ''u1'',
                 CreateTransaction ''u1'' ''credit'' (Num 500) ''success'',
                 SendMessage (IdNum 42) (WalletFunded (Num 500))]\<rparr>"

text \<open>What settling does to the store: the transaction with this id becomes
  \<open>success\<close>.\<close>

definition settle :: "string \<Rightarrow> transaction_doc \<Rightarrow> transaction_doc" where
  "settle i x = (if txn_id x = i then x\<lparr>txn_status := ''success''\<rparr> else x)"

text \<open>The example store right after \<open>/fund 500\<close>: the pending funding is the user's
  only transaction.\<close>

definition fund_world :: world where
  "fund_world = crowded_world\<lparr>transactions := [fund_txn ''pending''], next_id := 1\<rparr>"

text \<open>What a polling tick finds for a reference: the first of the user's ten newest
  transactions whose details carry it.\<close>

definition visible_transaction :: "world \<Rightarrow> string \<Rightarrow> string \<Rightarrow> transaction_doc option" where
  "visible_transaction w userId reference =
     find (\<lambda>t. map_of (txn_details t) ''reference'' = Some reference)
       (take 10 (sort_key (\<lambda>t. - int (txn_createdAt t))
          (filter (\<lambda>t. txn_userId t = userId) (transactions w))))"

section \<open>Observing a purchase\<close>

text \<open>The store after a confirm stage aborted for lack of funds: the session is gone,
  the user and the wallet were read, one message was sent, and nothing else happened.\<close>

definition aborted :: "world \<Rightarrow> tg_message \<Rightarrow> user_doc \<Rightarrow> message \<Rightarrow> world" where
  "aborted w msg user m =
     w\<lparr>userSessions := filter (\<lambda>(k, _). k \<noteq> m_chatId msg) (userSessions w),
       trace := trace w @ [GetUserByTelegramId (IdNum (m_fromId msg)),
                           GetUserWallet (user_id user),
                           SendMessage (IdNum (m_chatId msg)) m]\<rparr>"

text \<open>What the billing service returns for a purchase or a variation lookup, when it
  returns: the simulated or mocked response in test mode, the provider's answer
  otherwise.\<close>

definition provider_answer :: "env \<Rightarrow> vtpass_api \<Rightarrow> vt_result option" where
  "provider_answer env api =
     (if vtpass_test_mode env then Some simulateTestResponse
      else (case pay_outcome api of Answered r \<Rightarrow> Some r | NoAnswer \<Rightarrow> None))"

definition variations_answer :: "env \<Rightarrow> vtpass_api \<Rightarrow> string \<Rightarrow> variations_response option"
  where
  "variations_answer env api serviceID =
     (if vtpass_test_mode env then Some (getMockVariations serviceID)
      else (case variations_outcome api of Answered r \<Rightarrow> Some r | NoAnswer \<Rightarrow> None))"

text \<open>A purchase was recorded and reported: one transaction of the given type and
  status was added after the existing ones, and the last call made is the notice to the
  chat.\<close>

definition settled_as :: "world \<Rightarrow> world \<Rightarrow> nat \<Rightarrow> string \<Rightarrow> string \<Rightarrow> message \<Rightarrow> bool" where
  "settled_as w w' chatId type status notice =
     (length (transactions w') = Suc (length (transactions w)) \<and>
      take (length (transactions w)) (transactions w') = transactions w \<and>
      txn_type (last (transactions w')) = type \<and>
      txn_status (last (transactions w')) = status \<and>
      last (trace w') = SendMessage (IdNum chatId) notice)"

text \<open>The store after a plan lookup that found no plans.\<close>

definition no_plans :: "world \<Rightarrow> tg_message \<Rightarrow> string \<Rightarrow> message \<Rightarrow> world" where
  "no_plans w msg serviceID m =
     w\<lparr>userSessions := filter (\<lambda>(k, _). k \<noteq> m_chatId msg) (userSessions w),
       trace := trace w @ [GetVariations serviceID, SendMessage (IdNum (m_chatId msg)) m]\<rparr>"

text \<open>Example sessions, stores and messages for the purchase flows: chat 42 of user
  42, in a given stage, with every flow field filled in.\<close>

definition demo_session :: "stage \<Rightarrow> session" where
  "demo_session st =
     \<lparr>s_stage = Some st, s_lastActivity = 0,
      s_airtimeNetwork = Some \<lparr>net_name = ''MTN'', airtime_code = ''mtn'', data_code = ''mtn-data''\<rparr>,
      s_airtimeAmount = Num 200, s_phone = Some ''08012345678'',
      s_dataNetwork = Some \<lparr>net_name = ''MTN'', airtime_code = ''mtn'', data_code = ''mtn-data''\<rparr>,
      s_dataPhone = Some ''08012345678'', s_variations = [],
      s_variation = Some \<lparr>variation_code = ''M1024'', var_name = ''MTN Data 1GB'',
                           variation_amount = ''500''\<rparr>,
      s_electricityProvider = Some \<lparr>prov_code = ''eko-electric'', prov_name = ''Eko Electric''\<rparr>,
      s_meter = Some ''12345678901'', s_amount = Num 1000,
      s_tvProvider = Some \<lparr>prov_code = ''dstv'', prov_name = ''DSTV''\<rparr>,
      s_card = Some ''1234567890''\<rparr>"

definition shop_world :: "rat \<Rightarrow> stage \<Rightarrow> world" where
  "shop_world b st =
     \<lparr>users = [\<lparr>user_id = ''u1'', user_telegramId = ''42''\<rparr>],
      wallets = [\<lparr>wallet_id = ''w1'', wallet_userId = ''u1'', wallet_balance = b\<rparr>],
      transactions = [], userSessions = [(42, demo_session st)], next_id = 0, trace = []\<rparr>"

definition text_message :: "string \<Rightarrow> tg_message" where
  "text_message t = \<lparr>m_chatId = 42, m_fromId = 42, m_text = Some t, m_callback_query = False\<rparr>"

text \<open>The example environment with the billing service in live mode.\<close>

definition live_env :: env where
  "live_env = demo_env\<lparr>vtpass_test_mode := False\<rparr>"

text \<open>A live provider that accepts a purchase and reports its delivery as pending.\<close>

definition pending_api :: vtpass_api where
  "pending_api =
     \<lparr>pay_outcome = Answered \<lparr>vt_code = Some ''000'',
                               vt_response_description = Some ''TRANSACTION SUCCESSFUL'',
                               vt_delivery_status = Some ''pending''\<rparr>,
      variations_outcome = NoAnswer\<rparr>"

section \<open>Auxiliary facts\<close>

lemma toFixed2_nonneg: "0 \<le> x \<Longrightarrow> 0 \<le> toFixed2 x"
  by (simp add: toFixed2_def)

lemma floor_numeral_div:
  "\<lfloor>numeral a / numeral b :: rat\<rfloor> = numeral a div numeral b"
  using floor_divide_of_int_eq[of "numeral a" "numeral b", where ?'a = rat] by simp

lemma first_doc_Some_mem: "first_doc P xs = Some x \<Longrightarrow> x \<in> set xs \<and> P x"
  unfolding first_doc_def by (auto split: list.splits simp: filter_eq_Cons_iff)

lemma filter_self_nonempty: "x \<in> set xs \<Longrightarrow> filter (\<lambda>y. f y = f x) xs \<noteq> []"
  by (auto simp: filter_empty_conv)

lemma show_nat_42: "show_nat 42 = ''42''"
  by (simp add: show_nat.simps digit_char_def)

section \<open>The wallet ledger\<close>

lemma updateWalletBalance_preserves_nonneg:
  "balances_nonneg w \<Longrightarrow> balances_nonneg (snd (updateWalletBalance u a t w))"
  unfolding updateWalletBalance_def io_bind_def log_call_def io_throw_def getUserWallet_def
    update_wallet_document_def balances_nonneg_def
  by (auto simp: list_all_iff toFixed2_nonneg Let_def
      split: option.splits jsnum.splits prod.splits sum.splits if_splits)

lemma run_updates_preserves_nonneg:
  "balances_nonneg w \<Longrightarrow> balances_nonneg (run_updates w calls)"
  by (induction calls arbitrary: w) (auto simp: updateWalletBalance_preserves_nonneg)

lemma overdraw_rejected:
  assumes "type \<noteq> ''credit''" "userId \<noteq> []" "0 \<le> amt"
    "first_doc (\<lambda>wl. wallet_userId wl = userId) (wallets w) = Some wl"
    "wallet_balance wl - amt < 0"
  shows "updateWalletBalance userId (Num amt) type w =
          (Inl (Error ''Insufficient balance''),
           w\<lparr>trace := trace w @
                [UpdateWalletBalance userId (Num amt) type, GetUserWallet userId]\<rparr>)"
  using assms
  unfolding updateWalletBalance_def io_bind_def log_call_def io_throw_def getUserWallet_def
  by (simp add: Let_def)

text \<open>
  Claim C2. Starting from a store whose wallet balances are all non-negative, every
  sequence of \<open>updateWalletBalance\<close> calls (any user ids, amounts and types) ends in a
  store whose balances are all non-negative. A call of a type other than \<open>credit\<close> with
  a valid amount whose difference from the wallet's balance is negative throws
  \<open>Insufficient balance\<close> and writes nothing: the store it leaves differs from the one it
  found only in the two calls recorded (the method itself and its wallet read).
\<close>

theorem balance_never_negative:
  assumes "balances_nonneg w"
  shows "balances_nonneg (run_updates w calls) \<and>
         (type \<noteq> ''credit'' \<and> userId \<noteq> [] \<and> 0 \<le> amt \<and>
          first_doc (\<lambda>wl. wallet_userId wl = userId) (wallets w) = Some wl \<and>
          wallet_balance wl - amt < 0 \<longrightarrow>
            updateWalletBalance userId (Num amt) type w =
              (Inl (Error ''Insufficient balance''),
               w\<lparr>trace := trace w @
                    [UpdateWalletBalance userId (Num amt) type, GetUserWallet userId]\<rparr>))"
  using assms by (auto simp: run_updates_preserves_nonneg overdraw_rejected)

theorem balance_never_negative_witness:
  "balances_nonneg sample_world \<and>
   wallets (run_updates sample_world
       [(''u1'', Num 50, ''credit''), (''u1'', Num 500, ''debit''),
        (''u1'', Num (1205 / 10), ''debit'')])
     = [\<lparr>wallet_id = ''w1'', wallet_userId = ''u1'', wallet_balance = 295 / 10\<rparr>] \<and>
   balances_nonneg (run_updates sample_world
       [(''u1'', Num 50, ''credit''), (''u1'', Num 500, ''debit''),
        (''u1'', Num (1205 / 10), ''debit'')]) \<and>
   first_doc (\<lambda>wl. wallet_userId wl = ''u1'') (wallets sample_world)
     = Some \<lparr>wallet_id = ''w1'', wallet_userId = ''u1'', wallet_balance = 100\<rparr> \<and>
   updateWalletBalance ''u1'' (Num 500) ''debit'' sample_world =
     (Inl (Error ''Insufficient balance''),
      sample_world\<lparr>trace :=
        [UpdateWalletBalance ''u1'' (Num 500) ''debit'', GetUserWallet ''u1'']\<rparr>)"
proof -
  have a: "balances_nonneg sample_world"
    by (simp add: sample_world_def balances_nonneg_def)
  have b: "wallets (run_updates sample_world
       [(''u1'', Num 50, ''credit''), (''u1'', Num 500, ''debit''),
        (''u1'', Num (1205 / 10), ''debit'')])
     = [\<lparr>wallet_id = ''w1'', wallet_userId = ''u1'', wallet_balance = 295 / 10\<rparr>]"
    by code_simp
  have c: "first_doc (\<lambda>wl. wallet_userId wl = ''u1'') (wallets sample_world)
     = Some \<lparr>wallet_id = ''w1'', wallet_userId = ''u1'', wallet_balance = 100\<rparr>"
    by (simp add: sample_world_def first_doc_def)
  from balance_never_negative[OF a,
      of "[(''u1'', Num 50, ''credit''), (''u1'', Num 500, ''debit''),
           (''u1'', Num (1205 / 10), ''debit'')]"
         "''debit''" "''u1''" 500
         "\<lparr>wallet_id = ''w1'', wallet_userId = ''u1'', wallet_balance = 100\<rparr>"]
    a b c
  show ?thesis by (simp add: sample_world_def)
qed

text \<open>
  Claim C9. For a valid call (non-empty user id, a non-negative amount, an existing
  wallet) the new balance is the sum only when the type is exactly \<open>credit\<close>; for every
  other type string it is the difference, the call is rejected only when that
  difference is negative, and its result and the wallets it leaves are those of the
  same call with type \<open>debit\<close>.
\<close>

theorem non_credit_type_is_debit:
  assumes "userId \<noteq> []" "0 \<le> amt"
    "first_doc (\<lambda>wl. wallet_userId wl = userId) (wallets w) = Some wl"
  shows "wallets (snd (updateWalletBalance userId (Num amt) type w)) =
           (let newBalance = (if type = ''credit'' then wallet_balance wl + amt
                              else wallet_balance wl - amt)
            in if newBalance < 0 then wallets w
               else map (\<lambda>x. if wallet_id x = wallet_id wl
                               then x\<lparr>wallet_balance := toFixed2 newBalance\<rparr> else x)
                      (wallets w)) \<and>
         (type \<noteq> ''credit'' \<longrightarrow>
            isl (fst (updateWalletBalance userId (Num amt) type w))
              = (wallet_balance wl - amt < 0) \<and>
            fst (updateWalletBalance userId (Num amt) type w) =
              fst (updateWalletBalance userId (Num amt) ''debit'' w) \<and>
            wallets (snd (updateWalletBalance userId (Num amt) type w)) =
              wallets (snd (updateWalletBalance userId (Num amt) ''debit'' w)))"
proof -
  from first_doc_Some_mem[OF assms(3)] have "wl \<in> set (wallets w)" by simp
  then have ne: "filter (\<lambda>y. wallet_id y = wallet_id wl) (wallets w) \<noteq> []"
    by (rule filter_self_nonempty)
  show ?thesis
    using assms ne
    unfolding updateWalletBalance_def io_bind_def log_call_def io_throw_def getUserWallet_def
      update_wallet_document_def
    by (auto simp: Let_def first_doc_def split: list.splits)
qed

theorem non_credit_type_is_debit_witness:
  "first_doc (\<lambda>wl. wallet_userId wl = ''u1'') (wallets sample_world)
     = Some \<lparr>wallet_id = ''w1'', wallet_userId = ''u1'', wallet_balance = 100\<rparr> \<and>
   ''Credit'' \<noteq> ''credit'' \<and>
   wallets (snd (updateWalletBalance ''u1'' (Num 30) ''Credit'' sample_world))
     = [\<lparr>wallet_id = ''w1'', wallet_userId = ''u1'', wallet_balance = 70\<rparr>] \<and>
   wallets (snd (updateWalletBalance ''u1'' (Num 30) ''refund'' sample_world))
     = [\<lparr>wallet_id = ''w1'', wallet_userId = ''u1'', wallet_balance = 70\<rparr>] \<and>
   wallets (snd (updateWalletBalance ''u1'' (Num 30) ''credit'' sample_world))
     = [\<lparr>wallet_id = ''w1'', wallet_userId = ''u1'', wallet_balance = 130\<rparr>] \<and>
   \<not> isl (fst (updateWalletBalance ''u1'' (Num 30) ''Credit'' sample_world))"
proof -
  have c: "first_doc (\<lambda>wl. wallet_userId wl = ''u1'') (wallets sample_world)
     = Some \<lparr>wallet_id = ''w1'', wallet_userId = ''u1'', wallet_balance = 100\<rparr>"
    by (simp add: sample_world_def first_doc_def)
  have t: "toFixed2 70 = 70" "toFixed2 130 = 130"
    by (simp_all add: toFixed2_def floor_numeral_div)
  have w: "wallets sample_world
     = [\<lparr>wallet_id = ''w1'', wallet_userId = ''u1'', wallet_balance = 100\<rparr>]"
    by (simp add: sample_world_def)
  from non_credit_type_is_debit[OF _ _ c, of 30 "''Credit''"]
       non_credit_type_is_debit[OF _ _ c, of 30 "''refund''"]
       non_credit_type_is_debit[OF _ _ c, of 30 "''credit''"] c
  show ?thesis by (auto simp add: t w)
qed

section \<open>References\<close>

lemma split_on_prefix:
  "c \<notin> set s \<Longrightarrow> split_on c (s @ c # rest) = s # split_on c rest"
  by (induction s) (auto split: list.splits)

lemma reference_roundtrip_general:
  assumes "CHR ''_'' \<notin> set prefix" "CHR ''_'' \<notin> set userId"
  shows "reference_userId (make_reference prefix userId now) = Some userId"
proof -
  have "split_on CHR ''_'' (make_reference prefix userId now)
        = prefix # userId # split_on CHR ''_'' (show_nat now)"
    using assms by (simp add: make_reference_def split_on_prefix)
  then show ?thesis by (simp add: reference_userId_def js_index_def)
qed

text \<open>
  Claim C7. For every user id without an underscore, every timestamp and each of the
  prefixes the handlers use (AIRTIME, DATA, ELEC, TV, FUND), splitting the reference
  \<open>PREFIX_userId_timestamp\<close> on the underscore and taking the element at index 1 gives
  the user id back.
\<close>

theorem reference_roundtrip:
  assumes "CHR ''_'' \<notin> set userId" "prefix \<in> set reference_prefixes"
  shows "reference_userId (make_reference prefix userId now) = Some userId"
proof -
  from assms(2) have "CHR ''_'' \<notin> set prefix"
    by (auto simp: reference_prefixes_def)
  with assms(1) show ?thesis by (rule reference_roundtrip_general[rotated])
qed

theorem reference_roundtrip_witness:
  "CHR ''_'' \<notin> set ''123456789'' \<and> ''FUND'' \<in> set reference_prefixes \<and>
   make_reference ''FUND'' ''123456789'' 1700000000000 = ''FUND_123456789_1700000000000'' \<and>
   reference_userId ''FUND_123456789_1700000000000'' = Some ''123456789''"
proof -
  have a: "CHR ''_'' \<notin> set ''123456789''" by simp
  have b: "''FUND'' \<in> set reference_prefixes" by (simp add: reference_prefixes_def)
  have c: "make_reference ''FUND'' ''123456789'' 1700000000000
             = ''FUND_123456789_1700000000000''"
    by (simp add: make_reference_def show_nat.simps digit_char_def)
  from reference_roundtrip[OF a b, of 1700000000000] a b c show ?thesis by simp
qed

section \<open>Retry in the payment gateway service\<close>

lemma makeRequest_from_2:
  "makeRequest_from post (Suc (Suc 0)) w =
     (case post (Suc (Suc 0)) of
        Response r \<Rightarrow> (Inr (Some r), w\<lparr>trace := trace w @ [HttpPost (Suc (Suc 0))]\<rparr>)
      | Rejected st \<Rightarrow>
          (Inl (AxiosFailure st), w\<lparr>trace := trace w @ [HttpPost (Suc (Suc 0))]\<rparr>))"
  by (subst makeRequest_from.simps) (simp add: maxRetries_def split: axios_result.splits)

lemma makeRequest_from_1:
  "makeRequest_from post (Suc 0) w =
     (case post (Suc 0) of
        Response r \<Rightarrow> (Inr (Some r), w\<lparr>trace := trace w @ [HttpPost (Suc 0)]\<rparr>)
      | Rejected st \<Rightarrow>
          if st = Some 429
          then makeRequest_from post (Suc (Suc 0))
                 (w\<lparr>trace := trace w @ [HttpPost (Suc 0), Sleep 2000]\<rparr>)
          else (Inl (AxiosFailure st), w\<lparr>trace := trace w @ [HttpPost (Suc 0)]\<rparr>))"
  by (subst makeRequest_from.simps) (simp add: maxRetries_def split: axios_result.splits)

lemma makeRequest_from_0:
  "makeRequest_from post 0 w =
     (case post 0 of
        Response r \<Rightarrow> (Inr (Some r), w\<lparr>trace := trace w @ [HttpPost 0]\<rparr>)
      | Rejected st \<Rightarrow>
          if st = Some 429
          then makeRequest_from post (Suc 0)
                 (w\<lparr>trace := trace w @ [HttpPost 0, Sleep 1000]\<rparr>)
          else (Inl (AxiosFailure st), w\<lparr>trace := trace w @ [HttpPost 0]\<rparr>))"
  by (subst makeRequest_from.simps) (simp add: maxRetries_def split: axios_result.splits)

text \<open>The loop of \<open>makeRequest\<close>, unrolled: what it returns and the requests and sleeps
  it makes, from how the first three requests end.\<close>

lemma makeRequest_unrolled:
  "makeRequest post w =
    (case post 0 of
       Response r \<Rightarrow> (Inr (Some r), w\<lparr>trace := trace w @ [HttpPost 0]\<rparr>)
     | Rejected st \<Rightarrow>
        if st \<noteq> Some 429
        then (Inl (AxiosFailure st), w\<lparr>trace := trace w @ [HttpPost 0]\<rparr>)
        else (case post 1 of
           Response r \<Rightarrow>
             (Inr (Some r), w\<lparr>trace := trace w @ [HttpPost 0, Sleep 1000, HttpPost 1]\<rparr>)
         | Rejected st \<Rightarrow>
            if st \<noteq> Some 429
            then (Inl (AxiosFailure st),
                  w\<lparr>trace := trace w @ [HttpPost 0, Sleep 1000, HttpPost 1]\<rparr>)
            else (case post 2 of
               Response r \<Rightarrow>
                 (Inr (Some r),
                  w\<lparr>trace := trace w @
                       [HttpPost 0, Sleep 1000, HttpPost 1, Sleep 2000, HttpPost 2]\<rparr>)
             | Rejected st \<Rightarrow>
                 (Inl (AxiosFailure st),
                  w\<lparr>trace := trace w @
                       [HttpPost 0, Sleep 1000, HttpPost 1, Sleep 2000, HttpPost 2]\<rparr>))))"
  unfolding makeRequest_def
  by (simp add: makeRequest_from_0 makeRequest_from_1 makeRequest_from_2 numeral_2_eq_2
      split: axios_result.splits)

text \<open>A further request is made exactly when every request before it was rejected
  with status 429 and fewer than three have been made.\<close>

lemma retried_iff:
  "HttpPost (Suc k) \<in> set (new_calls w (snd (makeRequest post w))) \<longleftrightarrow>
     k < 2 \<and> (\<forall>j\<le>k. post j = Rejected (Some 429))"
proof (cases "post 0")
  case (Response r)
  then show ?thesis by (auto simp: makeRequest_unrolled new_calls_def)
next
  case r0: (Rejected st0)
  show ?thesis
  proof (cases "st0 = Some 429")
    case False
    with r0 show ?thesis by (auto simp: makeRequest_unrolled new_calls_def)
  next
    case True
    show ?thesis
    proof (cases "post 1")
      case (Response r)
      with r0 True show ?thesis
        by (auto simp: makeRequest_unrolled new_calls_def less_2_cases_iff le_Suc_eq)
    next
      case r1: (Rejected st1)
      show ?thesis
      proof (cases "st1 = Some 429")
        case False
        with r0 True r1 show ?thesis
          by (auto simp: makeRequest_unrolled new_calls_def less_2_cases_iff le_Suc_eq)
      next
        case t1: True
        with r0 True r1 show ?thesis
          by (cases "post 2")
             (auto simp: makeRequest_unrolled new_calls_def less_2_cases_iff le_Suc_eq)
      qed
    qed
  qed
qed

text \<open>With its arguments present, \<open>initializePayment\<close> is \<open>makeRequest\<close> after the
  logged call: it returns the response or reports the failure.\<close>

lemma initializePayment_makeRequest:
  "email \<noteq> [] \<and> \<not> js_falsy_num amount \<and> reference \<noteq> [] \<Longrightarrow>
   initializePayment post email amount reference w =
     (case makeRequest post (w\<lparr>trace := trace w @ [InitializePayment email amount reference]\<rparr>) of
        (Inr (Some r), w') \<Rightarrow> (Inr r, w')
      | (_, w') \<Rightarrow> (Inl (Error ''Payment initialization failed''), w'))"
  by (auto simp: initializePayment_def io_bind_def io_return_def io_throw_def log_call_def
      rethrow_as_def split: prod.splits sum.splits option.splits)

text \<open>
  Claim C6, as amended. Payment initialization goes through \<open>makeRequest\<close>, which
  retries on status 429 only, with exponential backoff and at most three requests: the
  first conjunct gives the whole run (a first request rejected with 429 is followed by a
  sleep of 1 s and a second request, a second 429 by a sleep of 2 s and a third request,
  and whatever ends the third request ends the call); request \<open>k + 1\<close> is made if and
  only if the requests up to \<open>k\<close> were all rejected with 429 and \<open>k < 2\<close>, and then
  after a sleep of \<open>2^k\<close> seconds; every other rejection is thrown at once.
  \<open>initializePayment\<close> returns what \<open>makeRequest\<close> returns and reports every failure
  as \<open>Payment initialization failed\<close>. Payment verification makes at most one GET
  request and never retries: every rejection, 429 included, is reported as \<open>Payment
  verification failed\<close> after that single request.
\<close>

theorem gateway_retry:
  "makeRequest post w =
    (case post 0 of
       Response r \<Rightarrow> (Inr (Some r), w\<lparr>trace := trace w @ [HttpPost 0]\<rparr>)
     | Rejected st \<Rightarrow>
        if st \<noteq> Some 429
        then (Inl (AxiosFailure st), w\<lparr>trace := trace w @ [HttpPost 0]\<rparr>)
        else (case post 1 of
           Response r \<Rightarrow>
             (Inr (Some r), w\<lparr>trace := trace w @ [HttpPost 0, Sleep 1000, HttpPost 1]\<rparr>)
         | Rejected st \<Rightarrow>
            if st \<noteq> Some 429
            then (Inl (AxiosFailure st),
                  w\<lparr>trace := trace w @ [HttpPost 0, Sleep 1000, HttpPost 1]\<rparr>)
            else (case post 2 of
               Response r \<Rightarrow>
                 (Inr (Some r),
                  w\<lparr>trace := trace w @
                       [HttpPost 0, Sleep 1000, HttpPost 1, Sleep 2000, HttpPost 2]\<rparr>)
             | Rejected st \<Rightarrow>
                 (Inl (AxiosFailure st),
                  w\<lparr>trace := trace w @
                       [HttpPost 0, Sleep 1000, HttpPost 1, Sleep 2000, HttpPost 2]\<rparr>)))) \<and>
   length (filter is_http_post (new_calls w (snd (makeRequest post w)))) \<le> 3 \<and>
   (\<forall>k. HttpPost (Suc k) \<in> set (new_calls w (snd (makeRequest post w))) \<longleftrightarrow>
        k < 2 \<and> (\<forall>j\<le>k. post j = Rejected (Some 429))) \<and>
   (\<forall>k. HttpPost (Suc k) \<in> set (new_calls w (snd (makeRequest post w))) \<longrightarrow>
        Sleep (2 ^ k * 1000) \<in> set (new_calls w (snd (makeRequest post w)))) \<and>
   (\<forall>st. post 0 = Rejected st \<and> st \<noteq> Some 429 \<longrightarrow>
        makeRequest post w = (Inl (AxiosFailure st), w\<lparr>trace := trace w @ [HttpPost 0]\<rparr>)) \<and>
   (email \<noteq> [] \<and> \<not> js_falsy_num amount \<and> reference \<noteq> [] \<longrightarrow>
      initializePayment post email amount reference w =
        (case makeRequest post
                (w\<lparr>trace := trace w @ [InitializePayment email amount reference]\<rparr>) of
           (Inr (Some r), w') \<Rightarrow> (Inr r, w')
         | (_, w') \<Rightarrow> (Inl (Error ''Payment initialization failed''), w'))) \<and>
   (\<forall>e. fst (initializePayment post email amount reference w) = Inl e \<longrightarrow>
        e = Error ''Payment initialization failed'') \<and>
   length (filter is_http_get (new_calls w (snd (verifyPayment get reference w)))) \<le> 1 \<and>
   (\<forall>st. get = Rejected st \<longrightarrow>
        verifyPayment get reference w =
          (Inl (Error ''Payment verification failed''),
           w\<lparr>trace := trace w @ (if reference = [] then [VerifyPayment reference]
                                  else [VerifyPayment reference, HttpGet])\<rparr>))"
  apply (intro conjI allI impI)
  subgoal by (rule makeRequest_unrolled)
  subgoal by (simp add: makeRequest_unrolled new_calls_def split: axios_result.splits)
  subgoal by (rule retried_iff)
  subgoal
    by (auto simp add: makeRequest_unrolled new_calls_def
        split: axios_result.splits if_splits)
  subgoal
    by (auto simp add: makeRequest_unrolled new_calls_def
        split: axios_result.splits if_splits)
  subgoal by (rule initializePayment_makeRequest)
  subgoal
    by (auto simp: initializePayment_def io_bind_def log_call_def rethrow_as_def io_throw_def
        split: prod.splits sum.splits)
  subgoal
    by (auto simp: verifyPayment_def io_bind_def log_call_def rethrow_as_def io_throw_def
          io_return_def new_calls_def
        split: prod.splits sum.splits axios_result.splits)
  subgoal
    by (auto simp: verifyPayment_def io_bind_def log_call_def rethrow_as_def io_throw_def
          io_return_def new_calls_def
        split: prod.splits sum.splits axios_result.splits)
  done

theorem gateway_retry_witness:
  "makeRequest (\<lambda>k. if k < 2 then Rejected (Some 429)
                     else Response \<lparr>pr_status = None, pr_authorization_url = Some ''url''\<rparr>)
     sample_world =
     (Inr (Some \<lparr>pr_status = None, pr_authorization_url = Some ''url''\<rparr>),
      sample_world\<lparr>trace := [HttpPost 0, Sleep 1000, HttpPost 1, Sleep 2000, HttpPost 2]\<rparr>) \<and>
   HttpPost (Suc 1) \<in> set (new_calls sample_world (snd (makeRequest
      (\<lambda>k. if k < 2 then Rejected (Some 429)
            else Response \<lparr>pr_status = None, pr_authorization_url = Some ''url''\<rparr>)
      sample_world))) \<and>
   Sleep (2 ^ 1 * 1000) \<in> set (new_calls sample_world (snd (makeRequest
      (\<lambda>k. if k < 2 then Rejected (Some 429)
            else Response \<lparr>pr_status = None, pr_authorization_url = Some ''url''\<rparr>)
      sample_world))) \<and>
   initializePayment (\<lambda>k. if k < 2 then Rejected (Some 429)
                     else Response \<lparr>pr_status = None, pr_authorization_url = Some ''url''\<rparr>)
       ''a@example.com'' (Num 500) ''FUND_42_1000'' sample_world =
     (Inr \<lparr>pr_status = None, pr_authorization_url = Some ''url''\<rparr>,
      sample_world\<lparr>trace := [InitializePayment ''a@example.com'' (Num 500) ''FUND_42_1000'',
                              HttpPost 0, Sleep 1000, HttpPost 1, Sleep 2000, HttpPost 2]\<rparr>) \<and>
   makeRequest (\<lambda>k. Rejected (Some 500)) sample_world =
     (Inl (AxiosFailure (Some 500)), sample_world\<lparr>trace := [HttpPost 0]\<rparr>) \<and>
   fst (initializePayment (\<lambda>k. Rejected (Some 500)) ''a@example.com'' (Num 500)
          ''FUND_42_1000'' sample_world) = Inl (Error ''Payment initialization failed'') \<and>
   verifyPayment (Rejected (Some 500)) ''FUND_42_1000'' sample_world =
     (Inl (Error ''Payment verification failed''),
      sample_world\<lparr>trace := [VerifyPayment ''FUND_42_1000'', HttpGet]\<rparr>)"
proof -
  let ?r = "\<lparr>pr_status = None, pr_authorization_url = Some ''url''\<rparr>"
  let ?post = "\<lambda>k::nat. if k < 2 then Rejected (Some 429) else Response ?r"
  let ?fail = "\<lambda>k::nat. Rejected (Some 500)"
  let ?calls = "new_calls sample_world (snd (makeRequest ?post sample_world))"
  note g = gateway_retry[where post = ?post and w = sample_world and email = "''a@example.com''"
      and amount = "Num 500" and reference = "''FUND_42_1000''" and get = "Rejected (Some 500)"]
  note h = gateway_retry[where post = ?fail and w = sample_world and email = "''a@example.com''"
      and amount = "Num 500" and reference = "''FUND_42_1000''" and get = "Rejected (Some 500)"]
  have t: "trace sample_world = []" by (simp add: sample_world_def)
  from g have "makeRequest ?post sample_world =
    (case ?post 0 of
       Response r \<Rightarrow> (Inr (Some r), sample_world\<lparr>trace := trace sample_world @ [HttpPost 0]\<rparr>)
     | Rejected st \<Rightarrow>
        if st \<noteq> Some 429
        then (Inl (AxiosFailure st), sample_world\<lparr>trace := trace sample_world @ [HttpPost 0]\<rparr>)
        else (case ?post 1 of
           Response r \<Rightarrow>
             (Inr (Some r), sample_world\<lparr>trace := trace sample_world @ [HttpPost 0, Sleep 1000, HttpPost 1]\<rparr>)
         | Rejected st \<Rightarrow>
            if st \<noteq> Some 429
            then (Inl (AxiosFailure st),
                  sample_world\<lparr>trace := trace sample_world @ [HttpPost 0, Sleep 1000, HttpPost 1]\<rparr>)
            else (case ?post 2 of
               Response r \<Rightarrow>
                 (Inr (Some r),
                  sample_world\<lparr>trace := trace sample_world @
                       [HttpPost 0, Sleep 1000, HttpPost 1, Sleep 2000, HttpPost 2]\<rparr>)
             | Rejected st \<Rightarrow>
                 (Inl (AxiosFailure st),
                  sample_world\<lparr>trace := trace sample_world @
                       [HttpPost 0, Sleep 1000, HttpPost 1, Sleep 2000, HttpPost 2]\<rparr>))))"
    by (rule conjunct1)
  then have m: "makeRequest ?post sample_world =
     (Inr (Some ?r),
      sample_world\<lparr>trace := [HttpPost 0, Sleep 1000, HttpPost 1, Sleep 2000, HttpPost 2]\<rparr>)"
    by (simp add: t)
  have p: "(1::nat) < 2 \<and> (\<forall>j\<le>1. ?post j = Rejected (Some 429))" by simp
  from g have k1: "HttpPost (Suc 1) \<in> set ?calls \<longleftrightarrow>
      (1::nat) < 2 \<and> (\<forall>j\<le>1. ?post j = Rejected (Some 429))"
    by blast
  from k1 p have s: "HttpPost (Suc 1) \<in> set ?calls" by blast
  from g have "HttpPost (Suc 1) \<in> set ?calls \<longrightarrow> Sleep (2 ^ 1 * 1000) \<in> set ?calls"
    by blast
  with s have s2: "Sleep (2 ^ 1 * 1000) \<in> set ?calls" by blast
  have v: "''a@example.com'' \<noteq> [] \<and> \<not> js_falsy_num (Num 500) \<and> ''FUND_42_1000'' \<noteq> []"
    by simp
  from g have "''a@example.com'' \<noteq> [] \<and> \<not> js_falsy_num (Num 500) \<and> ''FUND_42_1000'' \<noteq> [] \<longrightarrow>
      initializePayment ?post ''a@example.com'' (Num 500) ''FUND_42_1000'' sample_world =
        (case makeRequest ?post
                (sample_world\<lparr>trace := trace sample_world @
                     [InitializePayment ''a@example.com'' (Num 500) ''FUND_42_1000'']\<rparr>) of
           (Inr (Some r), w') \<Rightarrow> (Inr r, w')
         | (_, w') \<Rightarrow> (Inl (Error ''Payment initialization failed''), w'))"
    by blast
  with v have i1: "initializePayment ?post ''a@example.com'' (Num 500) ''FUND_42_1000'' sample_world =
        (case makeRequest ?post
                (sample_world\<lparr>trace := trace sample_world @
                     [InitializePayment ''a@example.com'' (Num 500) ''FUND_42_1000'']\<rparr>) of
           (Inr (Some r), w') \<Rightarrow> (Inr r, w')
         | (_, w') \<Rightarrow> (Inl (Error ''Payment initialization failed''), w'))"
    by blast
  have i2: "initializePayment ?post ''a@example.com'' (Num 500) ''FUND_42_1000'' sample_world =
     (Inr ?r,
      sample_world\<lparr>trace := [InitializePayment ''a@example.com'' (Num 500) ''FUND_42_1000'',
                              HttpPost 0, Sleep 1000, HttpPost 1, Sleep 2000, HttpPost 2]\<rparr>)"
    by (simp add: i1 makeRequest_unrolled t)
  from h have f: "(\<forall>st. ?fail 0 = Rejected st \<and> st \<noteq> Some 429 \<longrightarrow>
        makeRequest ?fail sample_world =
          (Inl (AxiosFailure st), sample_world\<lparr>trace := trace sample_world @ [HttpPost 0]\<rparr>)) \<and>
      (\<forall>e. fst (initializePayment ?fail ''a@example.com'' (Num 500) ''FUND_42_1000''
                 sample_world) = Inl e \<longrightarrow> e = Error ''Payment initialization failed'') \<and>
      (\<forall>st. Rejected (Some 500) = Rejected st \<longrightarrow>
        verifyPayment (Rejected (Some 500)) ''FUND_42_1000'' sample_world =
          (Inl (Error ''Payment verification failed''),
           sample_world\<lparr>trace := trace sample_world @
              (if ''FUND_42_1000'' = [] then [VerifyPayment ''FUND_42_1000'']
               else [VerifyPayment ''FUND_42_1000'', HttpGet])\<rparr>))"
    by blast
  have f1: "makeRequest ?fail sample_world =
     (Inl (AxiosFailure (Some 500)), sample_world\<lparr>trace := [HttpPost 0]\<rparr>)"
    using f t by simp
  have i0: "isl (fst (initializePayment ?fail ''a@example.com'' (Num 500) ''FUND_42_1000''
                 sample_world))"
    by (simp add: initializePayment_def io_bind_def log_call_def rethrow_as_def io_throw_def
        makeRequest_unrolled)
  have f2: "fst (initializePayment ?fail ''a@example.com'' (Num 500) ''FUND_42_1000''
                 sample_world) = Inl (Error ''Payment initialization failed'')"
    using f i0 by (metis sum.collapse(1))
  have f3: "verifyPayment (Rejected (Some 500)) ''FUND_42_1000'' sample_world =
     (Inl (Error ''Payment verification failed''),
      sample_world\<lparr>trace := [VerifyPayment ''FUND_42_1000'', HttpGet]\<rparr>)"
    using f t by simp
  from m s s2 i2 f1 f2 f3 show ?thesis by blast
qed

text \<open>The claim as stated fails for verification: a verification the gateway rejects
  with status 429 ends after one GET, with no sleep and no second request.\<close>

theorem verification_not_retried_counterexample:
  "verifyPayment (Rejected (Some 429)) ''FUND_42_1000'' sample_world =
     (Inl (Error ''Payment verification failed''),
      sample_world\<lparr>trace := [VerifyPayment ''FUND_42_1000'', HttpGet]\<rparr>)"
  by (simp add: verifyPayment_def io_bind_def log_call_def rethrow_as_def io_throw_def
      sample_world_def)

section \<open>The webhook and the polling fallback\<close>

lemmas io_defs = io_bind_def io_return_def io_throw_def log_call_def rethrow_as_def
  send_message_def delete_session_def

lemmas db_defs = getUserByTelegramId_def getUserWallet_def updateWalletBalance_def
  update_wallet_document_def createTransaction_def updateTransaction_def
  getUserTransactions_def findTransactionByReference_def first_doc_def fresh_id_def

text \<open>
  Claim C3 (evaluation of the route). Behind the global JSON body parser the handler
  never sees a raw buffer: whatever the body and the signature header, the request ends
  with 400 from the parser (a JSON-typed body that does not parse) or with 500 from the
  handler's \<open>catch\<close> (the hash cannot be taken of \<open>req.body\<close>), never with 401; the
  store and the trace are left as they were.
\<close>

theorem webhook_route_never_verifies:
  "webhook_route env get now req w =
     (if content_type_json req \<and> raw_body req \<noteq> [] \<and> json_parse env (raw_body req) = None
      then ((400, ''Bad Request''), w)
      else ((500, ''Internal server error''), w))"
  by (auto simp: webhook_route_def bodyParser_json_def express_raw_def webhook_handler_def
      webhook_try_def io_throw_def split: option.splits)

text \<open>Given the raw buffer, the handler itself does answer a wrong signature with 401
  and touches nothing.\<close>

lemma webhook_handler_bad_signature:
  "Some (hmac_sha512_hex env (secret env) raw) \<noteq> signature \<Longrightarrow>
   webhook_handler env get now (Buffer raw) signature w = ((401, ''Invalid signature''), w)"
  by (simp add: webhook_handler_def webhook_try_def io_return_def)


lemma purchase_fields [simp]:
  "txn_userId (purchase_txn i t) = ''u1''" "txn_createdAt (purchase_txn i t) = t"
  "txn_status (purchase_txn i t) = ''success''" "txn_id (purchase_txn i t) = i"
  "txn_reference (purchase_txn i t) = ''AIRTIME_u1_'' @ i"
  "txn_details (purchase_txn i t) = [(''reference'', ''AIRTIME_u1_'' @ i)]"
  by (simp_all add: purchase_txn_def)

lemma fund_fields [simp]:
  "txn_userId (fund_txn s) = ''u1''" "txn_createdAt (fund_txn s) = 1000"
  "txn_status (fund_txn s) = s" "txn_id (fund_txn s) = ''1000''"
  "txn_reference (fund_txn s) = ''FUND_42_1000''"
  "txn_details (fund_txn s) = [(''reference'', ''FUND_42_1000''), (''method'', ''paystack'')]"
  by (simp_all add: fund_txn_def)

lemma sorted_view:
  "take 10 (sort_key (\<lambda>t. - int (txn_createdAt t))
      (filter (\<lambda>t. txn_userId t = ''u1'') (fund_txn s # ten_purchases))) = rev ten_purchases"
  by (simp add: ten_purchases_def)

lemma fund_status_update [simp]: "fund_txn s\<lparr>txn_status := s'\<rparr> = fund_txn s'"
  by (simp add: fund_txn_def)

text \<open>Whatever the request, the route leaves the store and the trace as they were;
  so does any run of webhook deliveries.\<close>

lemma webhook_route_keeps_world: "snd (webhook_route env get now req w) = w"
  by (auto simp: webhook_route_def bodyParser_json_def express_raw_def webhook_handler_def
      webhook_try_def io_throw_def split: option.splits)

lemma pushes_keep:
  "list_all (\<lambda>(now, s). \<not> is_tick s) sigs \<Longrightarrow> run_signals env get p sigs (k, w) = (k, w)"
proof (induction sigs)
  case Nil
  show ?case by simp
next
  case (Cons x sigs)
  obtain now s where x: "x = (now, s)" by (cases x)
  with Cons.prems obtain req where s: "s = PushSignal req" by (cases s) auto
  from Cons x s show ?case by (simp add: webhook_route_keeps_world)
qed

text \<open>
  Claim C1 (evaluation at a failing input). In the example store user 42 has a wallet
  of 100 and the pending funding \<open>FUND_42_1000\<close> of 500. The gateway delivers its
  webhook once: a \<open>charge.success\<close> event for the reference, correctly signed, while
  verification would report success. No polling tick runs. The request passes the
  global JSON body parser, the handler cannot take the hash of the parsed body, and the
  route answers 500: the wallet is not credited and no \<open>success\<close> transaction carries
  the reference.
\<close>

theorem push_alone_credits_nothing:
  "signature_header push_request =
     Some (hmac_sha512_hex demo_env (secret demo_env) (raw_body push_request)) \<and>
   json_parse demo_env (raw_body push_request) =
     Some \<lparr>p_event = ''charge.success'', p_reference = ''FUND_42_1000'', p_amount = Num 50000\<rparr> \<and>
   webhook_route demo_env paid 20000 push_request fund_world =
     ((500, ''Internal server error''), fund_world) \<and>
   run_signals demo_env paid fund_poll [(20000, push_signal)] (0, fund_world) = (0, fund_world) \<and>
   map wallet_balance (wallets (snd (run_signals demo_env paid fund_poll
      [(20000, push_signal)] (0, fund_world)))) = [100] \<and>
   success_count ''FUND_42_1000'' (snd (run_signals demo_env paid fund_poll
      [(20000, push_signal)] (0, fund_world))) = 0"
proof -
  have a: "signature_header push_request =
     Some (hmac_sha512_hex demo_env (secret demo_env) (raw_body push_request))"
    by (simp add: push_request_def demo_env_def)
  have b: "json_parse demo_env (raw_body push_request) =
     Some \<lparr>p_event = ''charge.success'', p_reference = ''FUND_42_1000'', p_amount = Num 50000\<rparr>"
    by (simp add: push_request_def demo_env_def)
  have r: "webhook_route demo_env paid 20000 push_request fund_world =
     ((500, ''Internal server error''), fund_world)"
    by (simp add: webhook_route_def bodyParser_json_def express_raw_def webhook_handler_def
        webhook_try_def io_throw_def demo_env_def push_request_def)
  have run: "run_signals demo_env paid fund_poll [(20000, push_signal)] (0, fund_world)
      = (0, fund_world)"
    by (simp add: push_signal_def r)
  have w: "map wallet_balance (wallets (snd (0::nat, fund_world))) = [100]"
    by (simp add: fund_world_def crowded_world_def)
  have c: "success_count ''FUND_42_1000'' (snd (0::nat, fund_world)) = 0"
    by (simp add: fund_world_def crowded_world_def success_count_def)
  from a b r w c show ?thesis unfolding run by blast
qed


lemma find_Some_mem: "find P xs = Some x \<Longrightarrow> x \<in> set xs"
  by (induction xs) (auto split: if_splits)

lemma visible_transaction_mem:
  "visible_transaction w u r = Some t \<Longrightarrow> t \<in> set (transactions w)"
  unfolding visible_transaction_def
  by (auto dest!: find_Some_mem in_set_takeD)

text \<open>
  Claim C10. On the last tick of the polling loop (the attempt counter is one below
  \<open>maxAttempts\<close>), when verification reports success, the user and the wallet exist,
  the amount is positive and the tick finds no transaction of the reference that is
  already \<open>success\<close>: the wallet is credited, and the tick sends the success message
  and then, in the same tick, the timed-out message.
\<close>

theorem poll_last_tick:
  assumes final: "pl_maxAttempts p = Suc attempts"
    and ok: "get = Response r" "pr_status r = Some ''success''"
    and ref: "pl_reference p \<noteq> []"
    and user: "\<not> tgid_falsy (pl_userId p)"
      "first_doc (\<lambda>u. user_telegramId u = tgid_toString (pl_userId p)) (users w) = Some user"
      "user_id user \<noteq> []"
    and wallet: "first_doc (\<lambda>wl. wallet_userId wl = user_id user) (wallets w) = Some wl"
      "0 \<le> wallet_balance wl"
    and amt: "pl_amount p = Num a" "0 < a"
    and fresh: "visible_transaction w (user_id user) (pl_reference p) = found"
      "found = None \<or> (\<exists>t. found = Some t \<and> txn_status t \<noteq> ''success'' \<and> txn_id t \<noteq> [])"
  shows "fst (poll_tick p get now (attempts, w)) = Suc attempts \<and>
         filter is_message (new_calls w (snd (poll_tick p get now (attempts, w)))) =
           [SendMessage (IdNum (pl_chatId p)) (WalletFunded (Num (toFixed2 a))),
            SendMessage (IdNum (pl_chatId p)) PaymentTimedOut] \<and>
         wallets (snd (poll_tick p get now (attempts, w))) =
           map (\<lambda>x. if wallet_id x = wallet_id wl
                     then x\<lparr>wallet_balance := toFixed2 (wallet_balance wl + a)\<rparr> else x)
             (wallets w)"
proof -
  from first_doc_Some_mem[OF wallet(1)] have "wl \<in> set (wallets w)" by simp
  then have ne: "filter (\<lambda>y. wallet_id y = wallet_id wl) (wallets w) \<noteq> []"
    by (rule filter_self_nonempty)
  from fresh(2) show ?thesis
  proof
    assume n: "found = None"
    show ?thesis
      using assms(1-11) ne fresh(1) n
      by (simp add: poll_tick_def poll_try_def poll_timeout_def verifyPayment_def io_defs db_defs
          visible_transaction_def new_calls_def Let_def split: list.splits)
  next
    assume "\<exists>t. found = Some t \<and> txn_status t \<noteq> ''success'' \<and> txn_id t \<noteq> []"
    then obtain t where t: "found = Some t" "txn_status t \<noteq> ''success''" "txn_id t \<noteq> []"
      by blast
    from visible_transaction_mem[of w "user_id user" "pl_reference p" t] fresh(1) t(1)
    have "t \<in> set (transactions w)" by simp
    then have net: "filter (\<lambda>y. txn_id y = txn_id t) (transactions w) \<noteq> []"
      by (rule filter_self_nonempty)
    show ?thesis
      using assms(1-11) ne net fresh(1) t
      by (simp add: poll_tick_def poll_try_def poll_timeout_def verifyPayment_def io_defs db_defs
          visible_transaction_def new_calls_def Let_def split: list.splits)
  qed
qed


theorem poll_last_tick_witness:
  "pl_maxAttempts fund_poll = Suc 29 \<and>
   visible_transaction sample_world ''u1'' ''FUND_42_1000'' = None \<and>
   fst (poll_tick fund_poll paid 5000 (29, sample_world)) = 30 \<and>
   filter is_message (new_calls sample_world (snd (poll_tick fund_poll paid 5000 (29, sample_world))))
     = [SendMessage (IdNum 42) (WalletFunded (Num 500)), SendMessage (IdNum 42) PaymentTimedOut] \<and>
   wallets (snd (poll_tick fund_poll paid 5000 (29, sample_world)))
     = [\<lparr>wallet_id = ''w1'', wallet_userId = ''u1'', wallet_balance = 600\<rparr>]"
proof -
  let ?user = "\<lparr>user_id = ''u1'', user_telegramId = ''42''\<rparr>"
  let ?wl = "\<lparr>wallet_id = ''w1'', wallet_userId = ''u1'', wallet_balance = 100\<rparr>"
  have h1: "pl_maxAttempts fund_poll = Suc 29" by (simp add: fund_poll_def)
  have h2: "paid = Response \<lparr>pr_status = Some ''success'', pr_authorization_url = None\<rparr>"
    by (simp add: paid_def)
  have h3: "pr_status \<lparr>pr_status = Some ''success'', pr_authorization_url = None\<rparr>
              = Some ''success''" by simp
  have h4: "pl_reference fund_poll \<noteq> []" by (simp add: fund_poll_def)
  have h5: "\<not> tgid_falsy (pl_userId fund_poll)" by (simp add: fund_poll_def)
  have h6: "first_doc (\<lambda>u. user_telegramId u = tgid_toString (pl_userId fund_poll))
              (users sample_world) = Some ?user"
    by (simp add: fund_poll_def sample_world_def first_doc_def show_nat.simps digit_char_def)
  have h7: "user_id ?user \<noteq> []" by simp
  have h8: "first_doc (\<lambda>wl. wallet_userId wl = user_id ?user) (wallets sample_world) = Some ?wl"
    by (simp add: sample_world_def first_doc_def)
  have h9: "0 \<le> wallet_balance ?wl" by simp
  have h10: "pl_amount fund_poll = Num 500" by (simp add: fund_poll_def)
  have h11: "(0::rat) < 500" by simp
  have h12: "visible_transaction sample_world (user_id ?user) (pl_reference fund_poll) = None"
    by (simp add: visible_transaction_def sample_world_def)
  have h13: "(None :: transaction_doc option) = None \<or>
        (\<exists>t. None = Some t \<and> txn_status t \<noteq> ''success'' \<and> txn_id t \<noteq> [])" by simp
  have t: "toFixed2 500 = 500" "toFixed2 600 = 600"
    by (simp_all add: toFixed2_def floor_numeral_div)
  from poll_last_tick[OF h1 h2 h3 h4 h5 h6 h7 h8 h9 h10 h11 h12 h13, of 5000] h1 h12
  show ?thesis
    by (simp add: t fund_poll_def sample_world_def)
qed

section \<open>Crediting by the polling fallback\<close>

lemma insort_key_map:
  "(\<And>x. f (g x) = f x) \<Longrightarrow>
   insort_key f (g x) (map g xs) = map g (insort_key f x xs)"
  by (induction xs) auto

lemma sort_key_map:
  "(\<And>x. f (g x) = f x) \<Longrightarrow> sort_key f (map g xs) = map g (sort_key f xs)"
  by (induction xs) (auto simp: insort_key_map)

lemma find_map:
  "(\<And>x. Q (g x) = Q x) \<Longrightarrow> find Q (map g xs) = map_option g (find Q xs)"
  by (induction xs) auto

lemma filter_map_same:
  "(\<And>x. P (g x) = P x) \<Longrightarrow> filter P (map g xs) = map g (filter P xs)"
  by (induction xs) auto

lemma settle_fields [simp]:
  "txn_reference (settle i x) = txn_reference x" "txn_userId (settle i x) = txn_userId x"
  "txn_createdAt (settle i x) = txn_createdAt x" "txn_details (settle i x) = txn_details x"
  "txn_id (settle i x) = txn_id x"
  by (simp_all add: settle_def)

lemma visible_after_settle:
  "visible_transaction (w\<lparr>transactions := map (settle i) (transactions w)\<rparr>) u ref
     = map_option (settle i) (visible_transaction w u ref)"
  by (simp add: visible_transaction_def filter_map_same sort_key_map take_map find_map)


lemma reference_userId_nonempty: "reference_userId ref = Some tid \<Longrightarrow> ref \<noteq> []"
  by (auto simp: reference_userId_def js_index_def)

lemma first_doc_single: "filter P xs = [t] \<Longrightarrow> first_doc P xs = Some t"
  by (simp add: first_doc_def)

text \<open>The first tick settles the funding.\<close>

lemma first_tick_settles:
  assumes user: "\<not> tgid_falsy (pl_userId p)"
      "first_doc (\<lambda>u. user_telegramId u = tgid_toString (pl_userId p)) (users w) = Some user"
      "user_id user \<noteq> []"
    and poll: "pl_reference p = ref" "ref \<noteq> []" "pl_amount p = Num a"
    and amt: "0 < a"
    and wallet: "first_doc (\<lambda>wl. wallet_userId wl = user_id user) (wallets w) = Some wl"
      "0 \<le> wallet_balance wl"
    and txn: "filter (\<lambda>x. txn_id x = txn_id t) (transactions w) = [t]"
      "visible_transaction w (user_id user) ref = Some t"
      "txn_status t \<noteq> ''success''" "txn_id t \<noteq> []"
    and paid: "get = Response r" "pr_status r = Some ''success''"
  shows "users (snd (poll_tick p get now (k, w))) = users w \<and>
         wallets (snd (poll_tick p get now (k, w))) =
           map (\<lambda>x. if wallet_id x = wallet_id wl
                     then x\<lparr>wallet_balance := toFixed2 (wallet_balance wl + a)\<rparr> else x)
             (wallets w) \<and>
         transactions (snd (poll_tick p get now (k, w))) =
           map (settle (txn_id t)) (transactions w)"
proof -
  from first_doc_Some_mem[OF wallet(1)] have "wl \<in> set (wallets w)" by simp
  then have ne: "filter (\<lambda>y. wallet_id y = wallet_id wl) (wallets w) \<noteq> []"
    by (rule filter_self_nonempty)
  show ?thesis
    using assms ne txn(2)[unfolded visible_transaction_def]
    by (simp add: poll_tick_def poll_try_def poll_timeout_def verifyPayment_def io_defs db_defs
        Let_def settle_def split: list.splits)
qed

text \<open>A signal for a settled funding changes neither users, wallets nor transactions.\<close>

lemma settled_signal_keeps:
  assumes user: "\<not> tgid_falsy (pl_userId p)"
      "first_doc (\<lambda>u. user_telegramId u = tgid_toString (pl_userId p)) (users ws) = Some user"
    and poll: "pl_reference p = ref" "ref \<noteq> []"
    and txn: "visible_transaction ws (user_id user) ref = Some t'"
      "txn_status t' = ''success''"
    and paid: "get = Response r" "pr_status r = Some ''success''"
  shows "users (snd (deliver env get p (now, s) (k, ws))) = users ws \<and>
         wallets (snd (deliver env get p (now, s) (k, ws))) = wallets ws \<and>
         transactions (snd (deliver env get p (now, s) (k, ws))) = transactions ws"
proof (cases s)
  case PollSignal
  show ?thesis
    using assms txn(1)[unfolded visible_transaction_def] PollSignal
    by (simp add: poll_tick_def poll_try_def poll_timeout_def verifyPayment_def io_defs
        getUserByTelegramId_def getUserTransactions_def Let_def)
next
  case (PushSignal req)
  then show ?thesis by (simp add: webhook_route_keeps_world)
qed

lemma settled_run_keeps:
  assumes user: "\<not> tgid_falsy (pl_userId p)"
      "first_doc (\<lambda>u. user_telegramId u = tgid_toString (pl_userId p)) (users ws) = Some user"
    and poll: "pl_reference p = ref" "ref \<noteq> []"
    and txn: "visible_transaction ws (user_id user) ref = Some t'"
      "txn_status t' = ''success''"
    and paid: "get = Response r" "pr_status r = Some ''success''"
  shows "wallets (snd (run_signals env get p sigs (k, ws))) = wallets ws \<and>
         transactions (snd (run_signals env get p sigs (k, ws))) = transactions ws"
  using user(2) txn(1)
proof (induction sigs arbitrary: k ws)
  case Nil
  show ?case by simp
next
  case (Cons x sigs)
  obtain now s where x: "x = (now, s)" by (cases x)
  obtain k' ws' where d: "deliver env get p (now, s) (k, ws) = (k', ws')"
    by (cases "deliver env get p (now, s) (k, ws)")
  from settled_signal_keeps[OF user(1) Cons.prems(1) poll Cons.prems(2) txn(2) paid,
      of env now s k] d
  have keep: "users ws' = users ws" "wallets ws' = wallets ws"
    "transactions ws' = transactions ws" by simp_all
  have v: "visible_transaction ws' (user_id user) ref = Some t'"
    using Cons.prems(2) keep(3) by (simp add: visible_transaction_def)
  from Cons.IH[of ws' k'] Cons.prems(1) keep v
  have "wallets (snd (run_signals env get p sigs (k', ws'))) = wallets ws' \<and>
        transactions (snd (run_signals env get p sigs (k', ws'))) = transactions ws'"
    by simp
  then show ?case using x d keep by simp
qed

text \<open>
  With at least one polling tick the funding is credited exactly once: the user has one
  pending transaction for the reference, the tick finds it among the user's ten newest,
  and every tick's verification reports success. Then after any sequence of webhook
  deliveries and ticks that holds a tick, the wallet has been credited once and exactly
  one \<open>success\<close> transaction carries the reference. The webhook deliveries take no
  part in it.
\<close>

lemma idempotent_with_a_tick:
  assumes user: "\<not> tgid_falsy (pl_userId p)"
      "first_doc (\<lambda>u. user_telegramId u = tgid_toString (pl_userId p)) (users w) = Some user"
      "user_id user \<noteq> []"
    and poll: "pl_reference p = ref" "ref \<noteq> []" "pl_amount p = Num a"
    and amt: "0 < a"
    and wallet: "first_doc (\<lambda>wl. wallet_userId wl = user_id user) (wallets w) = Some wl"
      "0 \<le> wallet_balance wl"
    and txn: "filter (\<lambda>x. txn_reference x = ref) (transactions w) = [t]"
      "filter (\<lambda>x. txn_id x = txn_id t) (transactions w) = [t]"
      "visible_transaction w (user_id user) ref = Some t"
      "txn_status t \<noteq> ''success''" "txn_id t \<noteq> []"
    and paid: "get = Response r" "pr_status r = Some ''success''"
    and sigs: "\<not> list_all (\<lambda>(now, s). \<not> is_tick s) sigs"
  shows "wallets (snd (run_signals env get p sigs (k, w))) =
           map (\<lambda>x. if wallet_id x = wallet_id wl
                     then x\<lparr>wallet_balance := toFixed2 (wallet_balance wl + a)\<rparr> else x)
             (wallets w) \<and>
         success_count ref (snd (run_signals env get p sigs (k, w))) = 1"
  using sigs
proof (induction sigs)
  case Nil
  then show ?case by simp
next
  case (Cons x rest)
  obtain now s where x: "x = (now, s)" by (cases x)
  show ?case
  proof (cases s)
    case (PushSignal req)
    with Cons.prems x have "\<not> list_all (\<lambda>(now, s). \<not> is_tick s) rest" by simp
    from Cons.IH[OF this] show ?thesis using x PushSignal
      by (simp add: webhook_route_keeps_world)
  next
    case PollSignal
    obtain k1 w1 where d: "poll_tick p get now (k, w) = (k1, w1)"
      by (cases "poll_tick p get now (k, w)")
    let ?T = "map (settle (txn_id t)) (transactions w)"
    let ?t = "settle (txn_id t) t"
    from first_tick_settles[OF user poll amt wallet txn(2-5) paid, of now k] d
    have w1: "users w1 = users w"
      "wallets w1 = map (\<lambda>x. if wallet_id x = wallet_id wl
                       then x\<lparr>wallet_balance := toFixed2 (wallet_balance wl + a)\<rparr> else x)
               (wallets w)"
      "transactions w1 = ?T" by simp_all
    have f: "filter (\<lambda>x. txn_reference x = ref) ?T = [?t]"
      using txn(1) by (simp add: filter_map_same)
    have st: "txn_status ?t = ''success''" by (simp add: settle_def)
    have u1: "first_doc (\<lambda>u. user_telegramId u = tgid_toString (pl_userId p)) (users w1)
                = Some user"
      using user(2) w1(1) by simp
    have "visible_transaction w1 (user_id user) ref
            = visible_transaction (w\<lparr>transactions := ?T\<rparr>) (user_id user) ref"
      using w1(3) by (simp add: visible_transaction_def)
    then have v1: "visible_transaction w1 (user_id user) ref = Some ?t"
      using txn(3) by (simp add: visible_after_settle)
    from settled_run_keeps[OF user(1) u1 poll(1,2) v1 st paid, of env rest k1]
    have keep: "wallets (snd (run_signals env get p rest (k1, w1))) = wallets w1"
      "transactions (snd (run_signals env get p rest (k1, w1))) = transactions w1" by simp_all
    have run: "run_signals env get p (x # rest) (k, w) = run_signals env get p rest (k1, w1)"
      using x PollSignal d by simp
    have "filter (\<lambda>x. txn_reference x = ref \<and> txn_status x = ''success'') ?T
            = filter (\<lambda>x. txn_status x = ''success'') (filter (\<lambda>x. txn_reference x = ref) ?T)"
      by (simp add: conj_commute)
    then have cnt: "length (filter (\<lambda>x. txn_reference x = ref \<and> txn_status x = ''success'') ?T) = 1"
      using f st by simp
    show ?thesis
      using run keep w1 cnt by (simp add: success_count_def)
  qed
qed


lemma idempotent_with_a_tick_example:
  "wallets (snd (run_signals demo_env paid fund_poll
      [(20000, push_signal), (21000, PollSignal), (22000, push_signal), (23000, PollSignal)]
      (0, fund_world)))
     = [\<lparr>wallet_id = ''w1'', wallet_userId = ''u1'', wallet_balance = 600\<rparr>] \<and>
   success_count ''FUND_42_1000'' (snd (run_signals demo_env paid fund_poll
      [(20000, push_signal), (21000, PollSignal), (22000, push_signal), (23000, PollSignal)]
      (0, fund_world))) = 1"
proof -
  let ?user = "\<lparr>user_id = ''u1'', user_telegramId = ''42''\<rparr>"
  let ?wl = "\<lparr>wallet_id = ''w1'', wallet_userId = ''u1'', wallet_balance = 100::rat\<rparr>"
  have h1: "\<not> tgid_falsy (pl_userId fund_poll)"
    "first_doc (\<lambda>u. user_telegramId u = tgid_toString (pl_userId fund_poll)) (users fund_world)
       = Some ?user"
    "user_id ?user \<noteq> []"
    by (simp_all add: fund_poll_def show_nat_42 fund_world_def crowded_world_def first_doc_def)
  have h2: "pl_reference fund_poll = ''FUND_42_1000''" "''FUND_42_1000'' \<noteq> []"
    "pl_amount fund_poll = Num 500"
    by (simp_all add: fund_poll_def)
  have h3: "(0::rat) < 500" by simp
  have h4: "first_doc (\<lambda>wl. wallet_userId wl = user_id ?user) (wallets fund_world) = Some ?wl"
    "0 \<le> wallet_balance ?wl"
    by (simp_all add: fund_world_def crowded_world_def first_doc_def)
  have h5: "filter (\<lambda>x. txn_reference x = ''FUND_42_1000'') (transactions fund_world)
              = [fund_txn ''pending'']"
    "filter (\<lambda>x. txn_id x = txn_id (fund_txn ''pending'')) (transactions fund_world)
              = [fund_txn ''pending'']"
    "visible_transaction fund_world (user_id ?user) ''FUND_42_1000'' = Some (fund_txn ''pending'')"
    "txn_status (fund_txn ''pending'') \<noteq> ''success''" "txn_id (fund_txn ''pending'') \<noteq> []"
    by (simp_all add: fund_world_def crowded_world_def visible_transaction_def fund_txn_def)
  have h6: "paid = Response \<lparr>pr_status = Some ''success'', pr_authorization_url = None\<rparr>"
    "pr_status \<lparr>pr_status = Some ''success'', pr_authorization_url = None\<rparr> = Some ''success''"
    by (simp_all add: paid_def)
  have h7: "\<not> list_all (\<lambda>(now, s). \<not> is_tick s)
       [(20000::nat, push_signal), (21000, PollSignal), (22000, push_signal), (23000, PollSignal)]"
    by simp
  have t: "toFixed2 600 = 600" by (simp add: toFixed2_def floor_numeral_div)
  from idempotent_with_a_tick[OF h1 h2 h3 h4 h5 h6 h7, of demo_env 0]
  show ?thesis by (simp add: fund_world_def crowded_world_def t)
qed

text \<open>Where the pending transaction is older than the user's ten newest, the first
  tick creates a \<open>success\<close> transaction of its own, and the next tick finds that
  one.\<close>

lemma poll_fields [simp]:
  "txn_userId poll_txn = ''u1''" "txn_createdAt poll_txn = 21000"
  "txn_status poll_txn = ''success''" "txn_id poll_txn = ''doc11''"
  "txn_reference poll_txn = ''FUND_42_1000''"
  "txn_details poll_txn = [(''reference'', ''FUND_42_1000''), (''source'', ''Paystack''),
                           (''method'', ''polling'')]"
  by (simp_all add: poll_txn_def)

lemma first_tick_step:
  "poll_tick fund_poll paid 21000 (0, crowded_world) = (1, after_tick)"
  by (simp add: poll_tick_def poll_try_def fund_poll_def paid_def after_tick_def crowded_world_def
      verifyPayment_def io_defs db_defs sorted_view show_nat.simps digit_char_def
      toFixed2_def floor_numeral_div Let_def poll_txn_def)
     (simp add: ten_purchases_def io_defs db_defs show_nat.simps digit_char_def
      toFixed2_def floor_numeral_div Let_def poll_txn_def)

lemma second_tick_step:
  "poll_tick fund_poll paid 22000 (1, after_tick) =
     (1, after_tick\<lparr>trace := trace after_tick @
           [VerifyPayment ''FUND_42_1000'', HttpGet, ClearInterval,
            GetUserByTelegramId (IdNum 42), GetUserTransactions ''u1'' 10]\<rparr>)"
  by (simp add: poll_tick_def poll_try_def fund_poll_def paid_def after_tick_def crowded_world_def
      verifyPayment_def io_defs getUserByTelegramId_def getUserTransactions_def first_doc_def
      show_nat.simps digit_char_def Let_def)
     (simp add: ten_purchases_def)

lemma tick_finds_its_own_record:
  "map wallet_balance (wallets (snd (run_signals demo_env paid fund_poll
      [(20000, push_signal), (21000, PollSignal), (22000, PollSignal)] (0, crowded_world))))
     = [600] \<and>
   success_count ''FUND_42_1000'' (snd (run_signals demo_env paid fund_poll
      [(20000, push_signal), (21000, PollSignal), (22000, PollSignal)] (0, crowded_world))) = 1"
proof -
  have run: "run_signals demo_env paid fund_poll
      [(20000, push_signal), (21000, PollSignal), (22000, PollSignal)] (0, crowded_world)
    = (1, after_tick\<lparr>trace := trace after_tick @
           [VerifyPayment ''FUND_42_1000'', HttpGet, ClearInterval,
            GetUserByTelegramId (IdNum 42), GetUserTransactions ''u1'' 10]\<rparr>)"
    by (simp only: run_signals.simps deliver.simps push_signal_def webhook_route_keeps_world
        first_tick_step second_tick_step)
  show ?thesis
    unfolding run by (simp add: after_tick_def crowded_world_def ten_purchases_def success_count_def)
qed

section \<open>Purchases\<close>

lemma yes_text_passes:
  assumes "js_lower (sanitize t) = ''yes''"
  shows "t \<noteq> [] \<and> \<not> starts_with ''/start'' t \<and> \<not> starts_with ''/cancel'' t"
proof -
  have "t \<noteq> []" using assms by (auto simp: js_lower_def sanitize_def)
  moreover have "hd t \<noteq> CHR ''/''"
    using assms by (cases t) (auto simp: js_lower_def sanitize_def lower_char_def split: if_splits)
  ultimately show ?thesis
    by (cases t) (auto simp: starts_with_def)
qed

lemma filter_after_map:
  "filter (\<lambda>(k, _). k \<noteq> c) (map (\<lambda>(k, v). if k = c then (k, s) else (k, v)) xs)
     = filter (\<lambda>(k, _). k \<noteq> c) xs"
  by (induction xs) auto

lemma filter_session_put [simp]:
  "filter (\<lambda>(k, _). k \<noteq> c) (session_put c s xs) = filter (\<lambda>(k, _). k \<noteq> c) xs"
  by (simp add: session_put_def filter_after_map)

lemma vtpass_pay_answer:
  "provider_answer env api = Some result \<Longrightarrow> vtpass_pay env api w = (Inr result, w)"
  by (auto simp: provider_answer_def vtpass_pay_def io_return_def split: if_splits outcome.splits)

lemma make_reference_nonempty [simp]: "make_reference p u n \<noteq> []"
  by (simp add: make_reference_def)

lemmas handler_defs = message_handler_def stage_branch_def handler_catch_def put_session_def
  cannot_pay_def opt_str_def Let_def

lemma confirm_airtime_insufficient:
  assumes "m_text msg = Some raw" "js_lower (sanitize (js_trim raw)) = ''yes''"
    "\<not> m_callback_query msg"
    "map_of (userSessions w) (m_chatId msg) = Some session"
    "m_fromId msg \<noteq> 0"
    "first_doc (\<lambda>u. user_telegramId u = show_nat (m_fromId msg)) (users w) = Some user"
    "user_id user \<noteq> []"
    "s_stage session = Some confirm_airtime"
    "cannot_pay (first_doc (\<lambda>wl. wallet_userId wl = user_id user) (wallets w))
       (s_airtimeAmount session)"
  shows "message_handler env api now msg w = Some (aborted w msg user InsufficientBalanceFund)"
  using assms yes_text_passes[OF assms(2)]
  by (simp add: handler_defs confirm_airtime_branch_def io_defs db_defs aborted_def)

lemma confirm_data_insufficient:
  assumes "m_text msg = Some raw" "js_lower (sanitize (js_trim raw)) = ''yes''"
    "\<not> m_callback_query msg"
    "map_of (userSessions w) (m_chatId msg) = Some session"
    "m_fromId msg \<noteq> 0"
    "first_doc (\<lambda>u. user_telegramId u = show_nat (m_fromId msg)) (users w) = Some user"
    "user_id user \<noteq> []"
    "s_stage session = Some confirm_data" "s_variation session = Some v"
    "cannot_pay (first_doc (\<lambda>wl. wallet_userId wl = user_id user) (wallets w))
       (parseFloat env (variation_amount v))"
  shows "message_handler env api now msg w = Some (aborted w msg user InsufficientBalanceFund)"
  using assms yes_text_passes[OF assms(2)]
  by (simp add: handler_defs confirm_data_branch_def io_defs db_defs aborted_def)

lemma confirm_electricity_insufficient:
  assumes "m_text msg = Some raw" "js_lower (sanitize (js_trim raw)) = ''yes''"
    "\<not> m_callback_query msg"
    "map_of (userSessions w) (m_chatId msg) = Some session"
    "m_fromId msg \<noteq> 0"
    "first_doc (\<lambda>u. user_telegramId u = show_nat (m_fromId msg)) (users w) = Some user"
    "user_id user \<noteq> []"
    "s_stage session = Some confirm_electricity"
    "cannot_pay (first_doc (\<lambda>wl. wallet_userId wl = user_id user) (wallets w))
       (s_amount session)"
  shows "message_handler env api now msg w = Some (aborted w msg user InsufficientBalance)"
  using assms yes_text_passes[OF assms(2)]
  by (simp add: handler_defs confirm_electricity_branch_def io_defs db_defs aborted_def)

lemma confirm_tv_insufficient:
  assumes "m_text msg = Some raw" "js_lower (sanitize (js_trim raw)) = ''yes''"
    "\<not> m_callback_query msg"
    "map_of (userSessions w) (m_chatId msg) = Some session"
    "m_fromId msg \<noteq> 0"
    "first_doc (\<lambda>u. user_telegramId u = show_nat (m_fromId msg)) (users w) = Some user"
    "user_id user \<noteq> []"
    "s_stage session = Some confirm_tv" "s_variation session = Some v"
    "cannot_pay (first_doc (\<lambda>wl. wallet_userId wl = user_id user) (wallets w))
       (parseFloat env (variation_amount v))"
  shows "message_handler env api now msg w = Some (aborted w msg user InsufficientBalance)"
  using assms yes_text_passes[OF assms(2)]
  by (simp add: handler_defs confirm_tv_branch_def io_defs db_defs aborted_def)

text \<open>
  Claim C4. A chat in a confirm stage (airtime, data, electricity or TV) sends text
  that sanitizes and lower-cases to \<open>yes\<close>; the user exists. If the wallet read at
  that moment is missing, or its balance is below the cost (the session's amount for
  airtime and electricity, \<open>parseFloat\<close> of the selected plan's price for data and TV),
  the handler ends in the aborted store: the session is deleted, the calls made are the
  user read, the wallet read and the insufficient-balance message, so no billing call
  and no debit is made, and the wallets and transactions are unchanged.
\<close>

theorem insufficient_balance_aborts:
  assumes "m_text msg = Some raw" "js_lower (sanitize (js_trim raw)) = ''yes''"
    "\<not> m_callback_query msg"
    "map_of (userSessions w) (m_chatId msg) = Some session"
    "m_fromId msg \<noteq> 0"
    "first_doc (\<lambda>u. user_telegramId u = show_nat (m_fromId msg)) (users w) = Some user"
    "user_id user \<noteq> []"
    "first_doc (\<lambda>wl. wallet_userId wl = user_id user) (wallets w) = wallet"
  shows
    "(s_stage session = Some confirm_airtime \<and> cannot_pay wallet (s_airtimeAmount session) \<longrightarrow>
        message_handler env api now msg w = Some (aborted w msg user InsufficientBalanceFund)) \<and>
     (s_stage session = Some confirm_data \<and> s_variation session = Some v \<and>
      cannot_pay wallet (parseFloat env (variation_amount v)) \<longrightarrow>
        message_handler env api now msg w = Some (aborted w msg user InsufficientBalanceFund)) \<and>
     (s_stage session = Some confirm_electricity \<and> cannot_pay wallet (s_amount session) \<longrightarrow>
        message_handler env api now msg w = Some (aborted w msg user InsufficientBalance)) \<and>
     (s_stage session = Some confirm_tv \<and> s_variation session = Some v \<and>
      cannot_pay wallet (parseFloat env (variation_amount v)) \<longrightarrow>
        message_handler env api now msg w = Some (aborted w msg user InsufficientBalance)) \<and>
     wallets (aborted w msg user m) = wallets w \<and>
     transactions (aborted w msg user m) = transactions w \<and>
     new_calls w (aborted w msg user m) =
       [GetUserByTelegramId (IdNum (m_fromId msg)), GetUserWallet (user_id user),
        SendMessage (IdNum (m_chatId msg)) m] \<and>
     map_of (userSessions (aborted w msg user m)) (m_chatId msg) = None"
proof -
  have gone: "map_of (filter (\<lambda>(k, _). k \<noteq> c) xs) c = None" for c :: nat and xs :: "(nat \<times> session) list"
    by (induction xs) auto
  show ?thesis
    using assms(8)
      confirm_airtime_insufficient[OF assms(1-7), of env api now]
      confirm_data_insufficient[OF assms(1-7), of v env api now]
      confirm_electricity_insufficient[OF assms(1-7), of env api now]
      confirm_tv_insufficient[OF assms(1-7), of v env api now]
    by (auto simp: aborted_def new_calls_def gone)
qed

lemma yes_text_example: "js_lower (sanitize (js_trim '' YES '')) = ''yes''"
  by (simp add: js_trim_def is_space_def sanitize_def js_lower_def lower_char_def)

theorem insufficient_balance_aborts_witness:
  "cannot_pay (Some \<lparr>wallet_id = ''w1'', wallet_userId = ''u1'', wallet_balance = 100\<rparr>) (Num 200) \<and>
   message_handler demo_env pending_api 7000 (text_message '' YES '') (shop_world 100 confirm_airtime)
     = Some ((shop_world 100 confirm_airtime)
         \<lparr>userSessions := [],
          trace := [GetUserByTelegramId (IdNum 42), GetUserWallet ''u1'',
                    SendMessage (IdNum 42) InsufficientBalanceFund]\<rparr>) \<and>
   message_handler demo_env pending_api 7000 (text_message '' YES '') (shop_world 100 confirm_data)
     = Some ((shop_world 100 confirm_data)
         \<lparr>userSessions := [],
          trace := [GetUserByTelegramId (IdNum 42), GetUserWallet ''u1'',
                    SendMessage (IdNum 42) InsufficientBalanceFund]\<rparr>) \<and>
   message_handler demo_env pending_api 7000 (text_message '' YES '')
       (shop_world 100 confirm_electricity)
     = Some ((shop_world 100 confirm_electricity)
         \<lparr>userSessions := [],
          trace := [GetUserByTelegramId (IdNum 42), GetUserWallet ''u1'',
                    SendMessage (IdNum 42) InsufficientBalance]\<rparr>) \<and>
   message_handler demo_env pending_api 7000 (text_message '' YES '') (shop_world 100 confirm_tv)
     = Some ((shop_world 100 confirm_tv)
         \<lparr>userSessions := [],
          trace := [GetUserByTelegramId (IdNum 42), GetUserWallet ''u1'',
                    SendMessage (IdNum 42) InsufficientBalance]\<rparr>)"
proof -
  let ?msg = "text_message '' YES ''"
  let ?user = "\<lparr>user_id = ''u1'', user_telegramId = ''42''\<rparr>"
  let ?wallet = "Some \<lparr>wallet_id = ''w1'', wallet_userId = ''u1'', wallet_balance = 100::rat\<rparr>"
  let ?v = "\<lparr>variation_code = ''M1024'', var_name = ''MTN Data 1GB'', variation_amount = ''500''\<rparr>"
  have h1: "m_text ?msg = Some '' YES ''" by (simp add: text_message_def)
  have h3: "\<not> m_callback_query ?msg" by (simp add: text_message_def)
  have h4: "map_of (userSessions (shop_world 100 st)) (m_chatId ?msg) = Some (demo_session st)" for st
    by (simp add: shop_world_def text_message_def)
  have h5: "m_fromId ?msg \<noteq> 0" by (simp add: text_message_def)
  have h6: "first_doc (\<lambda>u. user_telegramId u = show_nat (m_fromId ?msg))
              (users (shop_world 100 st)) = Some ?user" for st
    by (simp add: shop_world_def text_message_def first_doc_def show_nat_42)
  have h7: "user_id ?user \<noteq> []" by simp
  have h8: "first_doc (\<lambda>wl. wallet_userId wl = user_id ?user) (wallets (shop_world 100 st))
              = ?wallet" for st
    by (simp add: shop_world_def first_doc_def)
  have c1: "cannot_pay ?wallet (Num 200)" "cannot_pay ?wallet (Num 1000)"
    "cannot_pay ?wallet (parseFloat demo_env ''500'')"
    by (simp_all add: cannot_pay_def demo_env_def)
  have s: "s_stage (demo_session st) = Some st" "s_airtimeAmount (demo_session st) = Num 200"
    "s_amount (demo_session st) = Num 1000" "s_variation (demo_session st) = Some ?v" for st
    by (simp_all add: demo_session_def)
  have a: "aborted (shop_world 100 st) ?msg ?user m =
      (shop_world 100 st)\<lparr>userSessions := [],
          trace := [GetUserByTelegramId (IdNum 42), GetUserWallet ''u1'',
                    SendMessage (IdNum 42) m]\<rparr>" for st m
    by (simp add: aborted_def shop_world_def text_message_def)
  note t = insufficient_balance_aborts[OF h1 yes_text_example h3 h4 h5 h6 h7 h8,
      where v = ?v and env = demo_env and api = pending_api and now = 7000
        and m = InsufficientBalance]
  from t[of confirm_airtime] t[of confirm_data] t[of confirm_electricity] t[of confirm_tv]
  show ?thesis
    by (simp add: c1 s a)
qed

lemma confirm_airtime_executes:
  assumes "m_text msg = Some raw" "js_lower (sanitize (js_trim raw)) = ''yes''"
    "\<not> m_callback_query msg"
    "map_of (userSessions w) (m_chatId msg) = Some session"
    "m_fromId msg \<noteq> 0"
    "first_doc (\<lambda>u. user_telegramId u = show_nat (m_fromId msg)) (users w) = Some user"
    "user_id user \<noteq> []"
    "first_doc (\<lambda>wl. wallet_userId wl = user_id user) (wallets w) = Some wl"
    "provider_answer env api = Some result"
    "s_stage session = Some confirm_airtime"
    "s_airtimeAmount session = Num a" "0 < a" "a \<le> wallet_balance wl"
    "s_airtimeNetwork session = Some net" "airtime_code net \<noteq> []"
    "s_phone session = Some phone" "phone \<noteq> []"
  shows "message_handler env api now msg w =
    Some (w\<lparr>wallets := map (\<lambda>x. if wallet_id x = wallet_id wl
                                 then x\<lparr>wallet_balance := toFixed2 (wallet_balance wl - a)\<rparr>
                                 else x) (wallets w),
             transactions := transactions w @
               [\<lparr>txn_id = fresh_id w, txn_userId = user_id user, txn_type = ''airtime'',
                 txn_amount = toFixed2 a,
                 txn_reference = make_reference ''AIRTIME'' (user_id user) now,
                 txn_details = [(''reference'', make_reference ''AIRTIME'' (user_id user) now),
                                (''network'', net_name net), (''phone'', phone)]
                               @ result_entries result,
                 txn_status = purchase_status result, txn_createdAt = now\<rparr>],
             userSessions := filter (\<lambda>(k, _). k \<noteq> m_chatId msg) (userSessions w),
             next_id := Suc (next_id w),
             trace := trace w @
               [GetUserByTelegramId (IdNum (m_fromId msg)), GetUserWallet (user_id user),
                UpdateWalletBalance (user_id user) (Num a) ''debit'', GetUserWallet (user_id user),
                BuyAirtime (airtime_code net) (Num a) phone,
                CreateTransaction (user_id user) ''airtime'' (Num a) (purchase_status result),
                SendMessage (IdNum (m_chatId msg))
                  (if purchase_status result = ''success'' then AirtimeSent phone (net_name net)
                   else AirtimeFailed (failure_text result))]\<rparr>)"
proof -
  from first_doc_Some_mem[OF assms(8)] have "wl \<in> set (wallets w)" by simp
  then have ne: "filter (\<lambda>y. wallet_id y = wallet_id wl) (wallets w) \<noteq> []"
    by (rule filter_self_nonempty)
  show ?thesis
    using assms(1-8,10-17) yes_text_passes[OF assms(2)] ne
    by (simp add: handler_defs confirm_airtime_branch_def io_defs db_defs buyAirtime_def
        vtpass_pay_answer[OF assms(9)] split: list.splits)
qed

lemma confirm_data_executes:
  assumes "m_text msg = Some raw" "js_lower (sanitize (js_trim raw)) = ''yes''"
    "\<not> m_callback_query msg"
    "map_of (userSessions w) (m_chatId msg) = Some session"
    "m_fromId msg \<noteq> 0"
    "first_doc (\<lambda>u. user_telegramId u = show_nat (m_fromId msg)) (users w) = Some user"
    "user_id user \<noteq> []"
    "first_doc (\<lambda>wl. wallet_userId wl = user_id user) (wallets w) = Some wl"
    "provider_answer env api = Some result"
    "s_stage session = Some confirm_data"
    "s_variation session = Some v" "parseFloat env (variation_amount v) = Num a"
    "0 < a" "a \<le> wallet_balance wl"
    "s_dataNetwork session = Some net" "data_code net \<noteq> []" "variation_code v \<noteq> []"
    "s_dataPhone session = Some phone" "phone \<noteq> []"
  shows "message_handler env api now msg w =
    Some (w\<lparr>wallets := map (\<lambda>x. if wallet_id x = wallet_id wl
                                 then x\<lparr>wallet_balance := toFixed2 (wallet_balance wl - a)\<rparr>
                                 else x) (wallets w),
             transactions := transactions w @
               [\<lparr>txn_id = fresh_id w, txn_userId = user_id user, txn_type = ''data'',
                 txn_amount = toFixed2 a,
                 txn_reference = make_reference ''DATA'' (user_id user) now,
                 txn_details = [(''reference'', make_reference ''DATA'' (user_id user) now),
                                (''network'', net_name net), (''plan'', var_name v),
                                (''phone'', phone)]
                               @ result_entries result,
                 txn_status = purchase_status result, txn_createdAt = now\<rparr>],
             userSessions := filter (\<lambda>(k, _). k \<noteq> m_chatId msg) (userSessions w),
             next_id := Suc (next_id w),
             trace := trace w @
               [GetUserByTelegramId (IdNum (m_fromId msg)), GetUserWallet (user_id user),
                UpdateWalletBalance (user_id user) (Num a) ''debit'', GetUserWallet (user_id user),
                BuyData (data_code net) (variation_code v) phone,
                CreateTransaction (user_id user) ''data'' (Num a) (purchase_status result),
                SendMessage (IdNum (m_chatId msg))
                  (if purchase_status result = ''success''
                   then DataSent phone (net_name net) (var_name v)
                   else DataFailed (failure_text result))]\<rparr>)"
proof -
  from first_doc_Some_mem[OF assms(8)] have "wl \<in> set (wallets w)" by simp
  then have ne: "filter (\<lambda>y. wallet_id y = wallet_id wl) (wallets w) \<noteq> []"
    by (rule filter_self_nonempty)
  show ?thesis
    using assms(1-8,10-19) yes_text_passes[OF assms(2)] ne
    by (simp add: handler_defs confirm_data_branch_def io_defs db_defs buyData_def
        vtpass_pay_answer[OF assms(9)] split: list.splits)
qed

lemma confirm_electricity_executes:
  assumes "m_text msg = Some raw" "js_lower (sanitize (js_trim raw)) = ''yes''"
    "\<not> m_callback_query msg"
    "map_of (userSessions w) (m_chatId msg) = Some session"
    "m_fromId msg \<noteq> 0"
    "first_doc (\<lambda>u. user_telegramId u = show_nat (m_fromId msg)) (users w) = Some user"
    "user_id user \<noteq> []"
    "first_doc (\<lambda>wl. wallet_userId wl = user_id user) (wallets w) = Some wl"
    "provider_answer env api = Some result"
    "s_stage session = Some confirm_electricity"
    "s_amount session = Num a" "0 < a" "a \<le> wallet_balance wl"
    "s_electricityProvider session = Some prov" "prov_code prov \<noteq> []"
    "s_meter session = Some meter" "meter \<noteq> []"
  shows "message_handler env api now msg w =
    Some (w\<lparr>wallets := map (\<lambda>x. if wallet_id x = wallet_id wl
                                 then x\<lparr>wallet_balance := toFixed2 (wallet_balance wl - a)\<rparr>
                                 else x) (wallets w),
             transactions := transactions w @
               [\<lparr>txn_id = fresh_id w, txn_userId = user_id user, txn_type = ''electricity'',
                 txn_amount = toFixed2 a,
                 txn_reference = make_reference ''ELEC'' (user_id user) now,
                 txn_details = [(''reference'', make_reference ''ELEC'' (user_id user) now),
                                (''provider'', prov_name prov), (''meter'', meter)]
                               @ result_entries result,
                 txn_status = purchase_status result, txn_createdAt = now\<rparr>],
             userSessions := filter (\<lambda>(k, _). k \<noteq> m_chatId msg) (userSessions w),
             next_id := Suc (next_id w),
             trace := trace w @
               [GetUserByTelegramId (IdNum (m_fromId msg)), GetUserWallet (user_id user),
                UpdateWalletBalance (user_id user) (Num a) ''debit'', GetUserWallet (user_id user),
                PayElectricityBill (prov_code prov) meter ''prepaid'' (Num a)
                  (if opt_str (s_phone session) = [] then ''08012345678''
                   else opt_str (s_phone session)),
                CreateTransaction (user_id user) ''electricity'' (Num a) (purchase_status result),
                SendMessage (IdNum (m_chatId msg))
                  (if purchase_status result = ''success'' then ElectricityPaid meter
                   else ElectricityFailed (failure_text result))]\<rparr>)"
proof -
  from first_doc_Some_mem[OF assms(8)] have "wl \<in> set (wallets w)" by simp
  then have ne: "filter (\<lambda>y. wallet_id y = wallet_id wl) (wallets w) \<noteq> []"
    by (rule filter_self_nonempty)
  show ?thesis
    using assms(1-8,10-17) yes_text_passes[OF assms(2)] ne
    by (simp add: message_handler_def stage_branch_def handler_catch_def put_session_def
        cannot_pay_def Let_def confirm_electricity_branch_def io_defs db_defs
        payElectricityBill_def vtpass_pay_answer[OF assms(9)] split: list.splits)
       (simp add: opt_str_def)
qed

lemma confirm_tv_executes:
  assumes "m_text msg = Some raw" "js_lower (sanitize (js_trim raw)) = ''yes''"
    "\<not> m_callback_query msg"
    "map_of (userSessions w) (m_chatId msg) = Some session"
    "m_fromId msg \<noteq> 0"
    "first_doc (\<lambda>u. user_telegramId u = show_nat (m_fromId msg)) (users w) = Some user"
    "user_id user \<noteq> []"
    "first_doc (\<lambda>wl. wallet_userId wl = user_id user) (wallets w) = Some wl"
    "provider_answer env api = Some result"
    "s_stage session = Some confirm_tv"
    "s_variation session = Some v" "parseFloat env (variation_amount v) = Num a"
    "0 < a" "a \<le> wallet_balance wl"
    "s_tvProvider session = Some prov" "prov_code prov \<noteq> []" "variation_code v \<noteq> []"
    "s_card session = Some cardno" "cardno \<noteq> []"
  shows "message_handler env api now msg w =
    Some (w\<lparr>wallets := map (\<lambda>x. if wallet_id x = wallet_id wl
                                 then x\<lparr>wallet_balance := toFixed2 (wallet_balance wl - a)\<rparr>
                                 else x) (wallets w),
             transactions := transactions w @
               [\<lparr>txn_id = fresh_id w, txn_userId = user_id user, txn_type = ''tv'',
                 txn_amount = toFixed2 a,
                 txn_reference = make_reference ''TV'' (user_id user) now,
                 txn_details = [(''reference'', make_reference ''TV'' (user_id user) now),
                                (''provider'', prov_name prov), (''card'', cardno),
                                (''plan'', var_name v)]
                               @ result_entries result,
                 txn_status = purchase_status result, txn_createdAt = now\<rparr>],
             userSessions := filter (\<lambda>(k, _). k \<noteq> m_chatId msg) (userSessions w),
             next_id := Suc (next_id w),
             trace := trace w @
               [GetUserByTelegramId (IdNum (m_fromId msg)), GetUserWallet (user_id user),
                UpdateWalletBalance (user_id user) (Num a) ''debit'', GetUserWallet (user_id user),
                PayTvSubscription (prov_code prov) cardno (variation_code v),
                CreateTransaction (user_id user) ''tv'' (Num a) (purchase_status result),
                SendMessage (IdNum (m_chatId msg))
                  (if purchase_status result = ''success'' then TvCompleted cardno
                   else TvFailed (failure_text result))]\<rparr>)"
proof -
  from first_doc_Some_mem[OF assms(8)] have "wl \<in> set (wallets w)" by simp
  then have ne: "filter (\<lambda>y. wallet_id y = wallet_id wl) (wallets w) \<noteq> []"
    by (rule filter_self_nonempty)
  show ?thesis
    using assms(1-8,10-19) yes_text_passes[OF assms(2)] ne
    by (simp add: handler_defs confirm_tv_branch_def io_defs db_defs payTvSubscription_def
        vtpass_pay_answer[OF assms(9)] split: list.splits)
qed

lemma settled_as_appended:
  "settled_as w
     (w\<lparr>wallets := ws, transactions := transactions w @ [doc], userSessions := us,
        next_id := n, trace := trace w @ cs @ [SendMessage (IdNum chatId) notice]\<rparr>)
     chatId (txn_type doc) (txn_status doc) notice"
  by (simp add: settled_as_def)

text \<open>
  Claim C5. In each purchase flow, once the confirm stage executes (the wallet covers
  the cost, the flow fields are present, the billing service returns a response), the
  handler adds one transaction of the flow's type whose status is \<open>success\<close> exactly
  when the response has code \<open>000\<close> and delivery status \<open>delivered\<close>, and \<open>failed\<close> for
  every other response; the notice sent last is the success notice in the first case
  and the failure notice otherwise.
\<close>

theorem purchase_verdict:
  assumes "m_text msg = Some raw" "js_lower (sanitize (js_trim raw)) = ''yes''"
    "\<not> m_callback_query msg"
    "map_of (userSessions w) (m_chatId msg) = Some session"
    "m_fromId msg \<noteq> 0"
    "first_doc (\<lambda>u. user_telegramId u = show_nat (m_fromId msg)) (users w) = Some user"
    "user_id user \<noteq> []"
    "first_doc (\<lambda>wl. wallet_userId wl = user_id user) (wallets w) = Some wl"
    "provider_answer env api = Some result"
    "verdict = (if vt_code result = Some ''000'' \<and> vt_delivery_status result = Some ''delivered''
                then ''success'' else ''failed'')"
  shows
    "(s_stage session = Some confirm_airtime \<and> s_airtimeAmount session = Num a \<and> 0 < a \<and>
      a \<le> wallet_balance wl \<and> s_airtimeNetwork session = Some net \<and> airtime_code net \<noteq> [] \<and>
      s_phone session = Some phone \<and> phone \<noteq> [] \<longrightarrow>
        (\<exists>w'. message_handler env api now msg w = Some w' \<and>
              settled_as w w' (m_chatId msg) ''airtime'' verdict
                (if verdict = ''success'' then AirtimeSent phone (net_name net)
                 else AirtimeFailed (failure_text result)))) \<and>
     (s_stage session = Some confirm_data \<and> s_variation session = Some v \<and>
      parseFloat env (variation_amount v) = Num c \<and> 0 < c \<and> c \<le> wallet_balance wl \<and>
      s_dataNetwork session = Some dnet \<and> data_code dnet \<noteq> [] \<and> variation_code v \<noteq> [] \<and>
      s_dataPhone session = Some dphone \<and> dphone \<noteq> [] \<longrightarrow>
        (\<exists>w'. message_handler env api now msg w = Some w' \<and>
              settled_as w w' (m_chatId msg) ''data'' verdict
                (if verdict = ''success'' then DataSent dphone (net_name dnet) (var_name v)
                 else DataFailed (failure_text result)))) \<and>
     (s_stage session = Some confirm_electricity \<and> s_amount session = Num e \<and> 0 < e \<and>
      e \<le> wallet_balance wl \<and> s_electricityProvider session = Some prov \<and>
      prov_code prov \<noteq> [] \<and> s_meter session = Some meter \<and> meter \<noteq> [] \<longrightarrow>
        (\<exists>w'. message_handler env api now msg w = Some w' \<and>
              settled_as w w' (m_chatId msg) ''electricity'' verdict
                (if verdict = ''success'' then ElectricityPaid meter
                 else ElectricityFailed (failure_text result)))) \<and>
     (s_stage session = Some confirm_tv \<and> s_variation session = Some v \<and>
      parseFloat env (variation_amount v) = Num c \<and> 0 < c \<and> c \<le> wallet_balance wl \<and>
      s_tvProvider session = Some tprov \<and> prov_code tprov \<noteq> [] \<and> variation_code v \<noteq> [] \<and>
      s_card session = Some cardno \<and> cardno \<noteq> [] \<longrightarrow>
        (\<exists>w'. message_handler env api now msg w = Some w' \<and>
              settled_as w w' (m_chatId msg) ''tv'' verdict
                (if verdict = ''success'' then TvCompleted cardno
                 else TvFailed (failure_text result))))"
proof -
  have v: "verdict = purchase_status result"
    using assms(10) by (simp add: purchase_status_def)
  show ?thesis
  proof (intro conjI impI; elim conjE)
    assume h: "s_stage session = Some confirm_airtime" "s_airtimeAmount session = Num a" "0 < a"
      "a \<le> wallet_balance wl" "s_airtimeNetwork session = Some net" "airtime_code net \<noteq> []"
      "s_phone session = Some phone" "phone \<noteq> []"
    show "\<exists>w'. message_handler env api now msg w = Some w' \<and>
              settled_as w w' (m_chatId msg) ''airtime'' verdict
                (if verdict = ''success'' then AirtimeSent phone (net_name net)
                 else AirtimeFailed (failure_text result))"
      unfolding v confirm_airtime_executes[OF assms(1-9) h, of now]
      by (simp add: settled_as_def)
  next
    assume h: "s_stage session = Some confirm_data" "s_variation session = Some v"
      "parseFloat env (variation_amount v) = Num c" "0 < c" "c \<le> wallet_balance wl"
      "s_dataNetwork session = Some dnet" "data_code dnet \<noteq> []" "variation_code v \<noteq> []"
      "s_dataPhone session = Some dphone" "dphone \<noteq> []"
    show "\<exists>w'. message_handler env api now msg w = Some w' \<and>
              settled_as w w' (m_chatId msg) ''data'' verdict
                (if verdict = ''success'' then DataSent dphone (net_name dnet) (var_name v)
                 else DataFailed (failure_text result))"
      unfolding v confirm_data_executes[OF assms(1-9) h, of now]
      by (simp add: settled_as_def)
  next
    assume h: "s_stage session = Some confirm_electricity" "s_amount session = Num e" "0 < e"
      "e \<le> wallet_balance wl" "s_electricityProvider session = Some prov"
      "prov_code prov \<noteq> []" "s_meter session = Some meter" "meter \<noteq> []"
    show "\<exists>w'. message_handler env api now msg w = Some w' \<and>
              settled_as w w' (m_chatId msg) ''electricity'' verdict
                (if verdict = ''success'' then ElectricityPaid meter
                 else ElectricityFailed (failure_text result))"
      unfolding v confirm_electricity_executes[OF assms(1-9) h, of now]
      by (simp add: settled_as_def)
  next
    assume h: "s_stage session = Some confirm_tv" "s_variation session = Some v"
      "parseFloat env (variation_amount v) = Num c" "0 < c" "c \<le> wallet_balance wl"
      "s_tvProvider session = Some tprov" "prov_code tprov \<noteq> []" "variation_code v \<noteq> []"
      "s_card session = Some cardno" "cardno \<noteq> []"
    show "\<exists>w'. message_handler env api now msg w = Some w' \<and>
              settled_as w w' (m_chatId msg) ''tv'' verdict
                (if verdict = ''success'' then TvCompleted cardno
                 else TvFailed (failure_text result))"
      unfolding v confirm_tv_executes[OF assms(1-9) h, of now]
      by (simp add: settled_as_def)
  qed
qed

section \<open>Purchase verdicts and plan lookups\<close>

theorem purchase_verdict_witness:
  "(\<exists>w'. message_handler live_env pending_api 7000 (text_message '' YES '')
            (shop_world 5000 confirm_airtime) = Some w' \<and>
         settled_as (shop_world 5000 confirm_airtime) w' 42 ''airtime'' ''failed''
           (AirtimeFailed ''TRANSACTION SUCCESSFUL'')) \<and>
   (\<exists>w'. message_handler demo_env pending_api 7000 (text_message '' YES '')
            (shop_world 5000 confirm_data) = Some w' \<and>
         settled_as (shop_world 5000 confirm_data) w' 42 ''data'' ''success''
           (DataSent ''08012345678'' ''MTN'' ''MTN Data 1GB'')) \<and>
   (\<exists>w'. message_handler live_env pending_api 7000 (text_message '' YES '')
            (shop_world 5000 confirm_electricity) = Some w' \<and>
         settled_as (shop_world 5000 confirm_electricity) w' 42 ''electricity'' ''failed''
           (ElectricityFailed ''TRANSACTION SUCCESSFUL'')) \<and>
   (\<exists>w'. message_handler demo_env pending_api 7000 (text_message '' YES '')
            (shop_world 5000 confirm_tv) = Some w' \<and>
         settled_as (shop_world 5000 confirm_tv) w' 42 ''tv'' ''success''
           (TvCompleted ''1234567890''))"
proof -
  let ?msg = "text_message '' YES ''"
  let ?user = "\<lparr>user_id = ''u1'', user_telegramId = ''42''\<rparr>"
  let ?wl = "\<lparr>wallet_id = ''w1'', wallet_userId = ''u1'', wallet_balance = 5000::rat\<rparr>"
  let ?v = "\<lparr>variation_code = ''M1024'', var_name = ''MTN Data 1GB'', variation_amount = ''500''\<rparr>"
  let ?net = "\<lparr>net_name = ''MTN'', airtime_code = ''mtn'', data_code = ''mtn-data''\<rparr>"
  let ?pending = "\<lparr>vt_code = Some ''000'', vt_response_description = Some ''TRANSACTION SUCCESSFUL'',
                    vt_delivery_status = Some ''pending''\<rparr>"
  have h1: "m_text ?msg = Some '' YES ''" by (simp add: text_message_def)
  have h3: "\<not> m_callback_query ?msg" by (simp add: text_message_def)
  have h4: "map_of (userSessions (shop_world 5000 st)) (m_chatId ?msg) = Some (demo_session st)"
    for st by (simp add: shop_world_def text_message_def)
  have h5: "m_fromId ?msg \<noteq> 0" by (simp add: text_message_def)
  have h6: "first_doc (\<lambda>u. user_telegramId u = show_nat (m_fromId ?msg))
              (users (shop_world 5000 st)) = Some ?user" for st
    by (simp add: shop_world_def text_message_def first_doc_def show_nat_42)
  have h7: "user_id ?user \<noteq> []" by simp
  have h8: "first_doc (\<lambda>wl. wallet_userId wl = user_id ?user) (wallets (shop_world 5000 st))
              = Some ?wl" for st
    by (simp add: shop_world_def first_doc_def)
  have live: "provider_answer live_env pending_api = Some ?pending"
    by (simp add: provider_answer_def live_env_def demo_env_def pending_api_def)
  have test: "provider_answer demo_env pending_api = Some simulateTestResponse"
    by (simp add: provider_answer_def demo_env_def)
  have vl: "''failed'' = (if vt_code ?pending = Some ''000'' \<and>
              vt_delivery_status ?pending = Some ''delivered'' then ''success'' else ''failed'')"
    by simp
  have vt: "''success'' = (if vt_code simulateTestResponse = Some ''000'' \<and>
              vt_delivery_status simulateTestResponse = Some ''delivered''
              then ''success'' else ''failed'')"
    by (simp add: simulateTestResponse_def)
  have s: "s_stage (demo_session st) = Some st" "s_airtimeAmount (demo_session st) = Num 200"
    "s_amount (demo_session st) = Num 1000" "s_variation (demo_session st) = Some ?v"
    "s_airtimeNetwork (demo_session st) = Some ?net" "s_dataNetwork (demo_session st) = Some ?net"
    "s_phone (demo_session st) = Some ''08012345678''"
    "s_dataPhone (demo_session st) = Some ''08012345678''"
    "s_electricityProvider (demo_session st)
       = Some \<lparr>prov_code = ''eko-electric'', prov_name = ''Eko Electric''\<rparr>"
    "s_meter (demo_session st) = Some ''12345678901''"
    "s_tvProvider (demo_session st) = Some \<lparr>prov_code = ''dstv'', prov_name = ''DSTV''\<rparr>"
    "s_card (demo_session st) = Some ''1234567890''" for st
    by (simp_all add: demo_session_def)
  have pf: "parseFloat live_env ''500'' = Num 500" "parseFloat demo_env ''500'' = Num 500"
    by (simp_all add: live_env_def demo_env_def)
  have ft: "failure_text ?pending = ''TRANSACTION SUCCESSFUL''"
    by (simp add: failure_text_def opt_str_def)
  note tl = purchase_verdict[OF h1 yes_text_example h3 h4 h5 h6 h7 h8 live vl,
      where now = 7000 and a = 200 and e = 1000 and c = 500 and v = ?v and net = ?net
        and dnet = ?net and phone = "''08012345678''" and dphone = "''08012345678''"
        and prov = "\<lparr>prov_code = ''eko-electric'', prov_name = ''Eko Electric''\<rparr>"
        and meter = "''12345678901''"
        and tprov = "\<lparr>prov_code = ''dstv'', prov_name = ''DSTV''\<rparr>"
        and cardno = "''1234567890''"]
  note tt = purchase_verdict[OF h1 yes_text_example h3 h4 h5 h6 h7 h8 test vt,
      where now = 7000 and a = 200 and e = 1000 and c = 500 and v = ?v and net = ?net
        and dnet = ?net and phone = "''08012345678''" and dphone = "''08012345678''"
        and prov = "\<lparr>prov_code = ''eko-electric'', prov_name = ''Eko Electric''\<rparr>"
        and meter = "''12345678901''"
        and tprov = "\<lparr>prov_code = ''dstv'', prov_name = ''DSTV''\<rparr>"
        and cardno = "''1234567890''"]
  have m: "m_chatId ?msg = 42" by (simp add: text_message_def)
  from tl[of confirm_airtime] tt[of confirm_data] tl[of confirm_electricity] tt[of confirm_tv]
  show ?thesis
    by (simp add: s pf ft m)
qed

lemma getVariations_answer:
  "serviceID \<noteq> [] \<Longrightarrow> variations_answer env api serviceID = Some r \<Longrightarrow>
   getVariations env api serviceID w = (Inr r, w\<lparr>trace := trace w @ [GetVariations serviceID]\<rparr>)"
  by (auto simp: getVariations_def variations_answer_def io_defs split: if_splits outcome.splits)

lemma read_varations_misspelled:
  "vr_content r = Some content \<Longrightarrow> map_of content ''varations'' = None \<Longrightarrow> read_varations r = []"
  by (simp add: read_varations_def)

lemma mock_has_no_varations: "read_varations (getMockVariations serviceID) = []"
  by (simp add: read_varations_def getMockVariations_def)

lemma awaiting_data_phone_no_plans:
  assumes "m_text msg = Some raw" "js_trim raw \<noteq> []"
    "\<not> starts_with ''/start'' (js_trim raw)" "\<not> starts_with ''/cancel'' (js_trim raw)"
    "\<not> m_callback_query msg"
    "map_of (userSessions w) (m_chatId msg) = Some session"
    "variations_answer env api serviceID = Some r"
    "vr_content r = Some content" "map_of content ''variations'' = Some plans"
    "map_of content ''varations'' = None"
    "s_stage session = Some awaiting_data_phone"
    "10 \<le> length (filter is_digit (sanitize (js_trim raw)))"
    "length (filter is_digit (sanitize (js_trim raw))) \<le> 14"
    "s_dataNetwork session = Some net" "data_code net = serviceID" "serviceID \<noteq> []"
  shows "message_handler env api now msg w
           = Some (no_plans w msg serviceID (NoDataPlans (net_name net)))"
  using assms(1-6,8-16)
  by (simp add: message_handler_def stage_branch_def handler_catch_def put_session_def Let_def
      awaiting_data_phone_branch_def io_defs no_plans_def
      getVariations_answer[OF assms(16) assms(7)]
      read_varations_misspelled[OF assms(8) assms(10)])

lemma awaiting_card_number_no_plans:
  assumes "m_text msg = Some raw" "js_trim raw \<noteq> []"
    "\<not> starts_with ''/start'' (js_trim raw)" "\<not> starts_with ''/cancel'' (js_trim raw)"
    "\<not> m_callback_query msg"
    "map_of (userSessions w) (m_chatId msg) = Some session"
    "variations_answer env api serviceID = Some r"
    "vr_content r = Some content" "map_of content ''variations'' = Some plans"
    "map_of content ''varations'' = None"
    "s_stage session = Some awaiting_card_number"
    "list_all is_digit (js_trim (sanitize (js_trim raw)))"
    "10 \<le> length (js_trim (sanitize (js_trim raw)))"
    "s_tvProvider session = Some prov" "prov_code prov = serviceID" "serviceID \<noteq> []"
  shows "message_handler env api now msg w
           = Some (no_plans w msg serviceID (NoTvPlans (prov_name prov)))"
  using assms(1-6,8-16)
  by (simp add: message_handler_def stage_branch_def handler_catch_def put_session_def Let_def
      awaiting_card_number_branch_def io_defs no_plans_def
      getVariations_answer[OF assms(16) assms(7)]
      read_varations_misspelled[OF assms(8) assms(10)])

text \<open>
  Claim C8. The billing service returns a variation list whose content keeps the plans
  under the key \<open>variations\<close> and has no key \<open>varations\<close> (the shape of the mocked
  responses). Then the data flow (a valid phone number in stage \<open>awaiting_data_phone\<close>)
  and the TV flow (a valid card number in stage \<open>awaiting_card_number\<close>) read the key
  \<open>varations\<close>, get the empty list, delete the session and send the no-plans notice.
  The mocked response of every service id reads as the empty list.
\<close>

theorem misspelled_key_finds_no_plans:
  assumes "m_text msg = Some raw" "js_trim raw \<noteq> []"
    "\<not> starts_with ''/start'' (js_trim raw)" "\<not> starts_with ''/cancel'' (js_trim raw)"
    "\<not> m_callback_query msg"
    "map_of (userSessions w) (m_chatId msg) = Some session"
    "variations_answer env api serviceID = Some r"
    "vr_content r = Some content" "map_of content ''variations'' = Some plans"
    "map_of content ''varations'' = None"
  shows
    "(s_stage session = Some awaiting_data_phone \<and>
      10 \<le> length (filter is_digit (sanitize (js_trim raw))) \<and>
      length (filter is_digit (sanitize (js_trim raw))) \<le> 14 \<and>
      s_dataNetwork session = Some net \<and> data_code net = serviceID \<and> serviceID \<noteq> [] \<longrightarrow>
        message_handler env api now msg w
          = Some (no_plans w msg serviceID (NoDataPlans (net_name net)))) \<and>
     (s_stage session = Some awaiting_card_number \<and>
      list_all is_digit (js_trim (sanitize (js_trim raw))) \<and>
      10 \<le> length (js_trim (sanitize (js_trim raw))) \<and>
      s_tvProvider session = Some prov \<and> prov_code prov = serviceID \<and> serviceID \<noteq> [] \<longrightarrow>
        message_handler env api now msg w
          = Some (no_plans w msg serviceID (NoTvPlans (prov_name prov)))) \<and>
     read_varations r = [] \<and>
     read_varations (getMockVariations sid) = [] \<and>
     map_of (userSessions (no_plans w msg serviceID m)) (m_chatId msg) = None"
proof -
  have gone: "map_of (filter (\<lambda>(k, _). k \<noteq> c) xs) c = None"
    for c :: nat and xs :: "(nat \<times> session) list"
    by (induction xs) auto
  show ?thesis
    using awaiting_data_phone_no_plans[OF assms, of net now]
      awaiting_card_number_no_plans[OF assms, of prov now]
      read_varations_misspelled[OF assms(8) assms(10)]
    by (auto simp: mock_has_no_varations no_plans_def gone)
qed

theorem misspelled_key_finds_no_plans_witness:
  "vr_content (getMockVariations ''mtn-data'') \<noteq> None \<and>
   vr_content (getMockVariations ''dstv'') \<noteq> None \<and>
   message_handler demo_env pending_api 7000 (text_message ''0801 234 5678'')
       (shop_world 100 awaiting_data_phone)
     = Some ((shop_world 100 awaiting_data_phone)
         \<lparr>userSessions := [],
          trace := [GetVariations ''mtn-data'', SendMessage (IdNum 42) (NoDataPlans ''MTN'')]\<rparr>) \<and>
   message_handler demo_env pending_api 7000 (text_message ''1234567890'')
       (shop_world 100 awaiting_card_number)
     = Some ((shop_world 100 awaiting_card_number)
         \<lparr>userSessions := [],
          trace := [GetVariations ''dstv'', SendMessage (IdNum 42) (NoTvPlans ''DSTV'')]\<rparr>)"
proof -
  let ?net = "\<lparr>net_name = ''MTN'', airtime_code = ''mtn'', data_code = ''mtn-data''\<rparr>"
  let ?prov = "\<lparr>prov_code = ''dstv'', prov_name = ''DSTV''\<rparr>"
  let ?mtn = "[\<lparr>variation_code = ''M1024'', var_name = ''MTN Data 1GB'', variation_amount = ''500''\<rparr>,
            \<lparr>variation_code = ''M2024'', var_name = ''MTN Data 2GB'', variation_amount = ''1000''\<rparr>,
            \<lparr>variation_code = ''M3024'', var_name = ''MTN Data 3GB'', variation_amount = ''1500''\<rparr>,
            \<lparr>variation_code = ''M5024'', var_name = ''MTN Data 5GB'',
              variation_amount = ''2500''\<rparr>]"
  let ?dstv = "[\<lparr>variation_code = ''dstv-padi'', var_name = ''DStv Padi'', variation_amount = ''2500''\<rparr>,
            \<lparr>variation_code = ''dstv-confam'', var_name = ''DStv Confam'',
              variation_amount = ''5500''\<rparr>,
            \<lparr>variation_code = ''dstv-compact'', var_name = ''DStv Compact'',
              variation_amount = ''12000''\<rparr>]"
  let ?d = "text_message ''0801 234 5678''"
  let ?t = "text_message ''1234567890''"
  have d1: "m_text ?d = Some ''0801 234 5678''" and t1: "m_text ?t = Some ''1234567890''"
    by (simp_all add: text_message_def)
  have d2: "js_trim ''0801 234 5678'' = ''0801 234 5678''"
    and t2: "js_trim ''1234567890'' = ''1234567890''"
    by (simp_all add: js_trim_def is_space_def)
  have d3: "js_trim ''0801 234 5678'' \<noteq> []" "\<not> starts_with ''/start'' (js_trim ''0801 234 5678'')"
    "\<not> starts_with ''/cancel'' (js_trim ''0801 234 5678'')"
    by (simp_all add: d2 starts_with_def)
  have t3: "js_trim ''1234567890'' \<noteq> []" "\<not> starts_with ''/start'' (js_trim ''1234567890'')"
    "\<not> starts_with ''/cancel'' (js_trim ''1234567890'')"
    by (simp_all add: t2 starts_with_def)
  have c: "\<not> m_callback_query ?d" "\<not> m_callback_query ?t" by (simp_all add: text_message_def)
  have sd: "map_of (userSessions (shop_world 100 st)) (m_chatId ?d) = Some (demo_session st)"
    and st: "map_of (userSessions (shop_world 100 st)) (m_chatId ?t) = Some (demo_session st)"
    for st by (simp_all add: shop_world_def text_message_def)
  have ad: "variations_answer demo_env pending_api ''mtn-data'' = Some (getMockVariations ''mtn-data'')"
    and at: "variations_answer demo_env pending_api ''dstv'' = Some (getMockVariations ''dstv'')"
    by (simp_all add: variations_answer_def demo_env_def)
  have cd: "vr_content (getMockVariations ''mtn-data'') = Some [(''variations'', ?mtn)]"
    and ct: "vr_content (getMockVariations ''dstv'') = Some [(''variations'', ?dstv)]"
    by (simp_all add: getMockVariations_def)
  have kd: "map_of [(''variations'', ?mtn)] ''variations'' = Some ?mtn"
    "map_of [(''variations'', ?mtn)] ''varations'' = None"
    and kt: "map_of [(''variations'', ?dstv)] ''variations'' = Some ?dstv"
    "map_of [(''variations'', ?dstv)] ''varations'' = None"
    by simp_all
  have digits: "10 \<le> length (filter is_digit (sanitize (js_trim ''0801 234 5678'')))"
    "length (filter is_digit (sanitize (js_trim ''0801 234 5678''))) \<le> 14"
    "list_all is_digit (js_trim (sanitize (js_trim ''1234567890'')))"
    "10 \<le> length (js_trim (sanitize (js_trim ''1234567890'')))"
    by (simp_all add: d2 t2 sanitize_def is_digit_def)
  have s: "s_stage (demo_session st) = Some st" "s_dataNetwork (demo_session st) = Some ?net"
    "s_tvProvider (demo_session st) = Some ?prov" for st
    by (simp_all add: demo_session_def)
  have n: "no_plans (shop_world 100 st) ?d sid m =
      (shop_world 100 st)\<lparr>userSessions := [],
          trace := [GetVariations sid, SendMessage (IdNum 42) m]\<rparr>"
    "no_plans (shop_world 100 st) ?t sid m =
      (shop_world 100 st)\<lparr>userSessions := [],
          trace := [GetVariations sid, SendMessage (IdNum 42) m]\<rparr>" for st sid m
    by (simp_all add: no_plans_def shop_world_def text_message_def)
  from misspelled_key_finds_no_plans[OF d1 d3 c(1) sd ad cd kd,
        where net = ?net and now = 7000 and prov = ?prov and m = InvalidPhone and sid = "''glo-data''",
        of awaiting_data_phone]
      misspelled_key_finds_no_plans[OF t1 t3 c(2) st at ct kt,
        where net = ?net and now = 7000 and prov = ?prov and m = InvalidPhone and sid = "''glo-data''",
        of awaiting_card_number]
  show ?thesis
    by (simp add: s n digits cd ct)
qed

end
